theory Spec2Isabelle
  imports Complex_Main
begin

section \<open>Numbers of the host language\<close>

text \<open>
  The program is TypeScript; its numbers are IEEE binary64 values. A number is \<open>NaN\<close>,
  one of the two infinities, or a finite real; the sign of zero is not modelled.

  The BMI calculator and the calendar projector round their results to a grid
  (\<open>Math.round\<close>, \<open>Math.floor\<close>), where one unit in the last place can decide the
  outcome: their arithmetic is binary64, every operation rounded to the nearest
  representable value, ties to even, with overflow to an infinity and gradual underflow.
  The estimator only adds and subtracts amounts of years and rounds nothing: its sums are
  kept exact on finite numbers, while \<open>NaN\<close> and the infinities propagate as in binary64.
  Time values (milliseconds since the epoch) and day numbers are integers in the program
  and are modelled as \<open>int\<close>.
\<close>

datatype number = NaN | PosInf | NegInf | Fin real

text \<open>The remainder operator \<open>%\<close> on integers: the result takes the sign of the dividend.
  The divisor is never zero where the program uses it.\<close>

definition js_rem :: "int \<Rightarrow> int \<Rightarrow> int" where
  "js_rem a b = sgn a * (\<bar>a\<bar> mod \<bar>b\<bar>)"

text \<open>Comparison and truthiness of numbers: every comparison with \<open>NaN\<close> is false;
  \<open>NaN\<close> and zero are the falsy numbers.\<close>

fun js_lt :: "number \<Rightarrow> number \<Rightarrow> bool" where
  "js_lt NaN _ = False"
| "js_lt _ NaN = False"
| "js_lt (Fin a) (Fin b) = (a < b)"
| "js_lt _ NegInf = False"
| "js_lt PosInf _ = False"
| "js_lt NegInf _ = True"
| "js_lt _ PosInf = True"

fun js_ge :: "number \<Rightarrow> number \<Rightarrow> bool" where
  "js_ge NaN _ = False"
| "js_ge _ NaN = False"
| "js_ge (Fin a) (Fin b) = (a \<ge> b)"
| "js_ge _ NegInf = True"
| "js_ge PosInf _ = True"
| "js_ge NegInf _ = False"
| "js_ge _ PosInf = False"

fun truthy :: "number \<Rightarrow> bool" where
  "truthy NaN = False"
| "truthy (Fin x) = (x \<noteq> 0)"
| "truthy _ = True"

text \<open>
  Rounding to binary64. \<open>binaryExponent x\<close> is the \<open>e\<close> with \<open>2 ^ e \<le> x < 2 ^ (e + 1)\<close>
  for a positive \<open>x\<close>; a value is rounded on the grid of step \<open>2 ^ (e - 52)\<close>, the
  exponent being at least \<open>-1022\<close> (subnormal values), and a result of magnitude
  \<open>2 ^ 1024\<close> or more is an infinity.
\<close>

function bitLength :: "int \<Rightarrow> int" where
  "bitLength n = (if n \<le> 0 then 0 else 1 + bitLength (n div 2))"
  by pat_completeness auto
termination
  by (relation "measure nat") auto

definition pow2 :: "int \<Rightarrow> real" where
  "pow2 e = (if e \<ge> 0 then 2 ^ nat e else 1 / 2 ^ nat (- e))"

definition binaryExponent :: "real \<Rightarrow> int" where
  "binaryExponent x =
     (if x \<ge> 1 then bitLength \<lfloor>x\<rfloor> - 1
      else - bitLength (\<lceil>1 / x\<rceil> - 1))"

definition roundHalfEven :: "real \<Rightarrow> int" where
  "roundHalfEven y =
     (let f = \<lfloor>y\<rfloor>; d = y - of_int f
      in if d < 1 / 2 then f else if d > 1 / 2 then f + 1 else if even f then f else f + 1)"

definition fl :: "real \<Rightarrow> number" where
  "fl x =
     (if x = 0 then Fin 0
      else
        let e = max (binaryExponent \<bar>x\<bar>) (- 1022);
            q = pow2 (e - 52);
            r = of_int (roundHalfEven (\<bar>x\<bar> / q)) * q
        in if r \<ge> pow2 1024 then (if x > 0 then PosInf else NegInf)
           else Fin (if x > 0 then r else - r))"

text \<open>
  The binary64 operations. An infinity times zero, zero by zero, an infinity by an
  infinity and the sum of opposite infinities are \<open>NaN\<close>; a zero divisor counts as
  positive zero. \<open>Math.round\<close> rounds to the nearest integer, a tie towards \<open>+\<infinity>\<close>;
  it and \<open>Math.floor\<close> are exact, their result being representable whenever the argument
  is.
\<close>

fun js_sgn :: "number \<Rightarrow> int" where
  "js_sgn NaN = 0"
| "js_sgn PosInf = 1"
| "js_sgn NegInf = - 1"
| "js_sgn (Fin x) = (if x > 0 then 1 else if x < 0 then - 1 else 0)"

definition infinityOfSign :: "int \<Rightarrow> number" where
  "infinityOfSign s = (if s > 0 then PosInf else if s < 0 then NegInf else NaN)"

fun js_neg :: "number \<Rightarrow> number" where
  "js_neg NaN = NaN"
| "js_neg PosInf = NegInf"
| "js_neg NegInf = PosInf"
| "js_neg (Fin x) = Fin (- x)"

fun js_mul :: "number \<Rightarrow> number \<Rightarrow> number" where
  "js_mul NaN _ = NaN"
| "js_mul _ NaN = NaN"
| "js_mul (Fin x) (Fin y) = fl (x * y)"
| "js_mul a b = infinityOfSign (js_sgn a * js_sgn b)"

fun js_div :: "number \<Rightarrow> number \<Rightarrow> number" where
  "js_div NaN _ = NaN"
| "js_div _ NaN = NaN"
| "js_div (Fin x) (Fin y) = (if y \<noteq> 0 then fl (x / y) else infinityOfSign (js_sgn (Fin x)))"
| "js_div (Fin x) _ = Fin 0"
| "js_div a (Fin y) = infinityOfSign (js_sgn a * (if y < 0 then - 1 else 1))"
| "js_div _ _ = NaN"

fun js_add :: "number \<Rightarrow> number \<Rightarrow> number" where
  "js_add NaN _ = NaN"
| "js_add _ NaN = NaN"
| "js_add (Fin x) (Fin y) = fl (x + y)"
| "js_add PosInf NegInf = NaN"
| "js_add NegInf PosInf = NaN"
| "js_add PosInf _ = PosInf"
| "js_add NegInf _ = NegInf"
| "js_add _ b = b"

definition js_sub :: "number \<Rightarrow> number \<Rightarrow> number" where
  "js_sub a b = js_add a (js_neg b)"

fun Math_round :: "number \<Rightarrow> number" where
  "Math_round (Fin x) = Fin (of_int \<lfloor>x + 0.5\<rfloor>)"
| "Math_round n = n"

fun Math_floor :: "number \<Rightarrow> number" where
  "Math_floor (Fin x) = Fin (of_int \<lfloor>x\<rfloor>)"
| "Math_floor n = n"

text \<open>
  The sums of the estimator, exact on finite numbers, and \<open>Math.max\<close>, which is \<open>NaN\<close>
  as soon as an argument is.
\<close>

fun exact_add :: "number \<Rightarrow> number \<Rightarrow> number" where
  "exact_add NaN _ = NaN"
| "exact_add _ NaN = NaN"
| "exact_add (Fin x) (Fin y) = Fin (x + y)"
| "exact_add PosInf NegInf = NaN"
| "exact_add NegInf PosInf = NaN"
| "exact_add PosInf _ = PosInf"
| "exact_add NegInf _ = NegInf"
| "exact_add _ b = b"

definition exact_sub :: "number \<Rightarrow> number \<Rightarrow> number" where
  "exact_sub a b = exact_add a (js_neg b)"

fun Math_max :: "number \<Rightarrow> number \<Rightarrow> number" where
  "Math_max NaN _ = NaN"
| "Math_max _ NaN = NaN"
| "Math_max a b = (if js_lt a b then b else a)"

section \<open>Data model\<close>

text \<open>The interfaces \<open>FormData\<close> and \<open>BMIData\<close>; every selection of the form is a string.\<close>

record FormData =
  birthDay :: string
  birthMonth :: string
  birthYear :: string
  sex :: string
  smoker :: bool
  bmi :: string
  outlook :: string
  alcoholConsumption :: string
  country :: string
  includeFitnessDiet :: bool
  fitnessLevel :: string
  dietRating :: string

record BMIData =
  weightUnit :: string
  weightValue :: string
  heightUnit :: string
  heightValue :: string

record CountdownTime =
  daysRemaining :: int
  hoursRemaining :: int
  minutesRemaining :: int
  secondsRemaining :: int
  approximateYears :: int

text \<open>\<open>type LifeExpectancyByCountry = Record<string, { male: number; female: number }>\<close>:
  a lookup of a country that is not a key gives \<open>undefined\<close>, here \<open>None\<close>.\<close>

record CountryData =
  male :: real
  female :: real

type_synonym LifeExpectancyByCountry = "string \<rightharpoonup> CountryData"

text \<open>\<open>type PredictionMode = 'rule' | 'who' | 'ml'\<close>, and \<open>UsedModel\<close> the same.\<close>

datatype PredictionMode = Mode_rule | Mode_who | Mode_ml

type_synonym UsedModel = PredictionMode

definition INITIAL_COUNTDOWN_TIME :: CountdownTime where
  "INITIAL_COUNTDOWN_TIME =
     \<lparr>daysRemaining = 0, hoursRemaining = 0, minutesRemaining = 0,
      secondsRemaining = 0, approximateYears = 0\<rparr>"

text \<open>The table of the current application (81 countries).\<close>

definition COUNTRY_LIFE_EXPECTANCY :: LifeExpectancyByCountry where
  "COUNTRY_LIFE_EXPECTANCY = map_of [
      (''Japan'', \<lparr>male = 81.6, female = 87.7\<rparr>),
      (''South Korea'', \<lparr>male = 80.3, female = 86.1\<rparr>),
      (''Switzerland'', \<lparr>male = 81.8, female = 85.6\<rparr>),
      (''Australia'', \<lparr>male = 81.2, female = 85.4\<rparr>),
      (''Spain'', \<lparr>male = 80.9, female = 86.2\<rparr>),
      (''Iceland'', \<lparr>male = 81.3, female = 84.9\<rparr>),
      (''Italy'', \<lparr>male = 81.2, female = 85.6\<rparr>),
      (''Israel'', \<lparr>male = 81.1, female = 84.9\<rparr>),
      (''Sweden'', \<lparr>male = 81.3, female = 84.7\<rparr>),
      (''France'', \<lparr>male = 79.8, female = 85.7\<rparr>),
      (''Norway'', \<lparr>male = 81.0, female = 84.3\<rparr>),
      (''Singapore'', \<lparr>male = 81.4, female = 85.7\<rparr>),
      (''Netherlands'', \<lparr>male = 80.3, female = 83.8\<rparr>),
      (''Canada'', \<lparr>male = 80.2, female = 84.1\<rparr>),
      (''New Zealand'', \<lparr>male = 80.2, female = 83.5\<rparr>),
      (''United Kingdom'', \<lparr>male = 79.8, female = 83.4\<rparr>),
      (''Germany'', \<lparr>male = 78.9, female = 83.6\<rparr>),
      (''United States'', \<lparr>male = 76.4, female = 81.2\<rparr>),
      (''China'', \<lparr>male = 75.0, female = 79.9\<rparr>),
      (''Monaco'', \<lparr>male = 85.2, female = 89.4\<rparr>),
      (''San Marino'', \<lparr>male = 83.1, female = 86.2\<rparr>),
      (''Hong Kong'', \<lparr>male = 82.3, female = 88.1\<rparr>),
      (''Andorra'', \<lparr>male = 80.9, female = 84.8\<rparr>),
      (''Luxembourg'', \<lparr>male = 80.1, female = 84.9\<rparr>),
      (''Slovenia'', \<lparr>male = 79.0, female = 84.3\<rparr>),
      (''Malta'', \<lparr>male = 80.9, female = 84.3\<rparr>),
      (''Ireland'', \<lparr>male = 80.5, female = 84.1\<rparr>),
      (''Cyprus'', \<lparr>male = 79.1, female = 83.9\<rparr>),
      (''Austria'', \<lparr>male = 79.4, female = 84.0\<rparr>),
      (''Finland'', \<lparr>male = 79.7, female = 84.5\<rparr>),
      (''Greece'', \<lparr>male = 79.0, female = 84.2\<rparr>),
      (''Belgium'', \<lparr>male = 79.8, female = 84.2\<rparr>),
      (''Portugal'', \<lparr>male = 78.7, female = 84.6\<rparr>),
      (''Denmark'', \<lparr>male = 79.0, female = 82.9\<rparr>),
      (''Poland'', \<lparr>male = 74.1, female = 82.1\<rparr>),
      (''Czech Republic'', \<lparr>male = 76.4, female = 82.2\<rparr>),
      (''Estonia'', \<lparr>male = 74.4, female = 83.0\<rparr>),
      (''Chile'', \<lparr>male = 77.9, female = 83.4\<rparr>),
      (''Costa Rica'', \<lparr>male = 77.8, female = 82.6\<rparr>),
      (''Slovakia'', \<lparr>male = 73.9, female = 81.0\<rparr>),
      (''Uruguay'', \<lparr>male = 74.4, female = 81.2\<rparr>),
      (''Croatia'', \<lparr>male = 75.7, female = 82.2\<rparr>),
      (''Latvia'', \<lparr>male = 70.9, female = 80.5\<rparr>),
      (''Lithuania'', \<lparr>male = 70.2, female = 81.2\<rparr>),
      (''Hungary'', \<lparr>male = 73.0, female = 79.3\<rparr>),
      (''Romania'', \<lparr>male = 72.3, female = 79.7\<rparr>),
      (''Bulgaria'', \<lparr>male = 71.9, female = 78.8\<rparr>),
      (''Panama'', \<lparr>male = 75.8, female = 81.6\<rparr>),
      (''Argentina'', \<lparr>male = 73.2, female = 79.8\<rparr>),
      (''Mexico'', \<lparr>male = 72.1, female = 77.8\<rparr>),
      (''Brazil'', \<lparr>male = 72.8, female = 79.9\<rparr>),
      (''Colombia'', \<lparr>male = 73.8, female = 80.0\<rparr>),
      (''Peru'', \<lparr>male = 73.0, female = 78.3\<rparr>),
      (''Ecuador'', \<lparr>male = 74.5, female = 80.0\<rparr>),
      (''Venezuela'', \<lparr>male = 69.8, female = 77.7\<rparr>),
      (''Turkey'', \<lparr>male = 76.3, female = 81.4\<rparr>),
      (''Russian Federation'', \<lparr>male = 66.5, female = 77.6\<rparr>),
      (''Belarus'', \<lparr>male = 69.9, female = 79.4\<rparr>),
      (''Ukraine'', \<lparr>male = 67.7, female = 77.8\<rparr>),
      (''Kazakhstan'', \<lparr>male = 67.4, female = 76.4\<rparr>),
      (''Thailand'', \<lparr>male = 72.4, female = 79.7\<rparr>),
      (''Malaysia'', \<lparr>male = 74.1, female = 78.6\<rparr>),
      (''Iran, Islamic Republic of'', \<lparr>male = 75.4, female = 78.0\<rparr>),
      (''Vietnam'', \<lparr>male = 71.7, female = 80.9\<rparr>),
      (''Philippines'', \<lparr>male = 67.5, female = 75.5\<rparr>),
      (''Indonesia'', \<lparr>male = 69.1, female = 73.3\<rparr>),
      (''India'', \<lparr>male = 68.2, female = 70.3\<rparr>),
      (''Bangladesh'', \<lparr>male = 70.6, female = 74.2\<rparr>),
      (''Pakistan'', \<lparr>male = 66.1, female = 68.0\<rparr>),
      (''Egypt'', \<lparr>male = 69.6, female = 74.3\<rparr>),
      (''Morocco'', \<lparr>male = 74.0, female = 77.4\<rparr>),
      (''Tunisia'', \<lparr>male = 74.2, female = 78.7\<rparr>),
      (''South Africa'', \<lparr>male = 62.3, female = 67.5\<rparr>),
      (''Kenya'', \<lparr>male = 62.2, female = 67.1\<rparr>),
      (''Ethiopia'', \<lparr>male = 64.9, female = 68.9\<rparr>),
      (''Nigeria'', \<lparr>male = 52.7, female = 54.7\<rparr>),
      (''Ghana'', \<lparr>male = 62.4, female = 64.2\<rparr>),
      (''Botswana'', \<lparr>male = 66.7, female = 71.8\<rparr>),
      (''Mauritius'', \<lparr>male = 71.9, female = 78.3\<rparr>),
      (''Rwanda'', \<lparr>male = 67.3, female = 71.8\<rparr>),
      (''Algeria'', \<lparr>male = 75.6, female = 78.3\<rparr>)]"

text \<open>The table of \<open>src/App.tsx\<close> (19 countries).\<close>

definition App_COUNTRY_LIFE_EXPECTANCY :: LifeExpectancyByCountry where
  "App_COUNTRY_LIFE_EXPECTANCY = map_of [
      (''Japan'', \<lparr>male = 81.6, female = 87.7\<rparr>),
      (''South Korea'', \<lparr>male = 80.3, female = 86.1\<rparr>),
      (''Switzerland'', \<lparr>male = 81.8, female = 85.6\<rparr>),
      (''Australia'', \<lparr>male = 81.2, female = 85.4\<rparr>),
      (''Spain'', \<lparr>male = 80.9, female = 86.2\<rparr>),
      (''Iceland'', \<lparr>male = 81.3, female = 84.9\<rparr>),
      (''Italy'', \<lparr>male = 81.2, female = 85.6\<rparr>),
      (''Israel'', \<lparr>male = 81.1, female = 84.9\<rparr>),
      (''Sweden'', \<lparr>male = 81.3, female = 84.7\<rparr>),
      (''France'', \<lparr>male = 79.8, female = 85.7\<rparr>),
      (''Norway'', \<lparr>male = 81.0, female = 84.3\<rparr>),
      (''Singapore'', \<lparr>male = 81.4, female = 85.7\<rparr>),
      (''Netherlands'', \<lparr>male = 80.3, female = 83.8\<rparr>),
      (''Canada'', \<lparr>male = 80.2, female = 84.1\<rparr>),
      (''New Zealand'', \<lparr>male = 80.2, female = 83.5\<rparr>),
      (''United Kingdom'', \<lparr>male = 79.8, female = 83.4\<rparr>),
      (''Germany'', \<lparr>male = 78.9, female = 83.6\<rparr>),
      (''United States'', \<lparr>male = 76.4, female = 81.2\<rparr>),
      (''China'', \<lparr>male = 75.0, female = 79.9\<rparr>)]"

section \<open>Expectancy estimator\<close>

text \<open>
  A call that may throw (or a promise that may reject) completes normally with a value or
  abruptly. \<open>computeExpectedYears\<close> receives \<open>prepareModelInput\<close> and
  \<open>predictWithModel\<close> as parameters and calls them inside \<open>try\<close>; the predictor
  resolves to a number or to \<open>null\<close>, or rejects. Any number that is not \<open>null\<close> is
  accepted as the baseline, \<open>NaN\<close> and the infinities included.
\<close>

datatype 'a completion = Normal 'a | Throw

record Estimate =
  years :: number
  usedModel :: UsedModel

text \<open>
  Lines 239 to 280 of \<open>computeExpectedYears\<close>: the choice of the baseline and of the
  reported model. The three branches are written out as the source has them; the
  \<open>catch\<close> block repeats the lookup of the \<open>who\<close> branch.
\<close>

definition baselineSelection ::
  "FormData \<Rightarrow> PredictionMode \<Rightarrow> LifeExpectancyByCountry \<Rightarrow> real \<Rightarrow> number option \<Rightarrow>
   (FormData \<Rightarrow> real \<Rightarrow> number option \<Rightarrow> 'mi completion) \<Rightarrow>
   ('mi \<Rightarrow> number option completion) \<Rightarrow> number \<times> UsedModel" where
  "baselineSelection formData predictionMode lifeExpectancyData currentAge calculatedBMI
     prepareModelInput predictWithModel =
     (if predictionMode = Mode_rule then
        (case lifeExpectancyData (country formData) of
           Some countryData \<Rightarrow>
             (Fin (if sex formData = ''female'' then female countryData else male countryData),
              Mode_rule)
         | None \<Rightarrow> (Fin (if sex formData = ''female'' then 78 + 4 else 78), Mode_rule))
      else if predictionMode = Mode_who then
        (case lifeExpectancyData (country formData) of
           Some countryData \<Rightarrow>
             (Fin (if sex formData = ''female'' then female countryData else male countryData),
              Mode_who)
         | None \<Rightarrow> (Fin 100, Mode_who))
      else
        (case (case prepareModelInput formData currentAge calculatedBMI of
                 Throw \<Rightarrow> Throw
               | Normal modelInput \<Rightarrow>
                   (case predictWithModel modelInput of
                      Throw \<Rightarrow> Throw
                    | Normal None \<Rightarrow> Throw
                    | Normal (Some prediction) \<Rightarrow> Normal prediction)) of
           Normal prediction \<Rightarrow> (prediction, Mode_ml)
         | Throw \<Rightarrow>
             (case lifeExpectancyData (country formData) of
                Some countryData \<Rightarrow>
                  (Fin (if sex formData = ''female'' then female countryData
                        else male countryData),
                   Mode_who)
              | None \<Rightarrow> (Fin 100, Mode_who))))"

text \<open>The failure of the \<open>ml\<close> path: a call inside \<open>try\<close> throws or rejects, or the
  prediction is \<open>null\<close>.\<close>

definition mlFails ::
  "(FormData \<Rightarrow> real \<Rightarrow> number option \<Rightarrow> 'mi completion) \<Rightarrow>
   ('mi \<Rightarrow> number option completion) \<Rightarrow> FormData \<Rightarrow> real \<Rightarrow> number option \<Rightarrow> bool" where
  "mlFails prepareModelInput predictWithModel formData currentAge calculatedBMI =
     (case prepareModelInput formData currentAge calculatedBMI of
        Throw \<Rightarrow> True
      | Normal modelInput \<Rightarrow>
          (case predictWithModel modelInput of
             Throw \<Rightarrow> True
           | Normal None \<Rightarrow> True
           | Normal (Some prediction) \<Rightarrow> False))"

text \<open>The prediction of the \<open>ml\<close> path when it does not fail.\<close>

definition mlPrediction ::
  "(FormData \<Rightarrow> real \<Rightarrow> number option \<Rightarrow> 'mi completion) \<Rightarrow>
   ('mi \<Rightarrow> number option completion) \<Rightarrow> FormData \<Rightarrow> real \<Rightarrow> number option \<Rightarrow>
   number option" where
  "mlPrediction prepareModelInput predictWithModel formData currentAge calculatedBMI =
     (case prepareModelInput formData currentAge calculatedBMI of
        Throw \<Rightarrow> None
      | Normal modelInput \<Rightarrow>
          (case predictWithModel modelInput of
             Throw \<Rightarrow> None
           | Normal None \<Rightarrow> None
           | Normal (Some prediction) \<Rightarrow> Some prediction))"

text \<open>
  The predictor the application passes in (lines 403 to 440 and 513 to 546).
  \<open>loadTFModel\<close> catches every error of the import and of the download and resolves to
  the model or to \<open>null\<close>; \<open>predictWithModel\<close> returns \<open>null\<close> when there is no model
  and when building the tensor, running the model or reading its data throws, and the
  first component of the output, unchecked, otherwise. The outcome of the download and the inference
  itself belong to the external library and are parameters; the cache of the loaded model
  is left out.
\<close>

definition loadTFModel :: "'model completion \<Rightarrow> 'model option" where
  "loadTFModel loading = (case loading of Normal model \<Rightarrow> Some model | Throw \<Rightarrow> None)"

definition predictWithModel_callback ::
  "'model completion \<Rightarrow> ('model \<Rightarrow> 'mi \<Rightarrow> number completion) \<Rightarrow> 'mi \<Rightarrow>
   number option completion" where
  "predictWithModel_callback loading inference modelInput =
     (case loadTFModel loading of
        None \<Rightarrow> Normal None
      | Some model \<Rightarrow>
          (case inference model modelInput of
             Throw \<Rightarrow> Normal None
           | Normal result \<Rightarrow> Normal (Some result)))"

text \<open>Lines 286 to 306: the BMI to use and its adjustment.\<close>

definition bmiFromCategory :: "FormData \<Rightarrow> number option" where
  "bmiFromCategory formData =
     (if bmi formData = ''under18.5'' then Some (Fin 17)
      else if bmi formData = ''18.5-24.9'' then Some (Fin 22)
      else if bmi formData = ''25-29.9'' then Some (Fin 27)
      else if bmi formData = ''30-34.9'' then Some (Fin 32)
      else if bmi formData = ''35+'' then Some (Fin 37)
      else None)"

definition bmiAdjustment :: "FormData \<Rightarrow> number option \<Rightarrow> real" where
  "bmiAdjustment formData calculatedBMI =
     (case (case calculatedBMI of Some b \<Rightarrow> Some b | None \<Rightarrow> bmiFromCategory formData) of
        None \<Rightarrow> 0
      | Some bmiToUse \<Rightarrow>
          (if js_lt bmiToUse (Fin 16) then - 8
           else if js_lt bmiToUse (Fin 18.5) then - 3
           else if js_lt bmiToUse (Fin 25) then 2
           else if js_lt bmiToUse (Fin 30) then - 2
           else if js_lt bmiToUse (Fin 35) then - 6
           else if js_lt bmiToUse (Fin 40) then - 10
           else - 15))"

text \<open>Lines 308 to 375: smoking, alcohol, outlook, fitness and diet.\<close>

definition smokingAdjustment :: "FormData \<Rightarrow> real" where
  "smokingAdjustment formData =
     (if smoker formData then (if sex formData = ''male'' then - 13.2 else - 14.5) else 0)"

definition alcoholAdjustment :: "FormData \<Rightarrow> real" where
  "alcoholAdjustment formData =
     (if alcoholConsumption formData = ''never'' then 0.5
      else if alcoholConsumption formData = ''once-a-month'' then 1
      else if alcoholConsumption formData = ''2-4-times-per-month'' then 0.5
      else if alcoholConsumption formData = ''2-times-a-week'' then - 1
      else if alcoholConsumption formData = ''daily'' then - 5
      else if alcoholConsumption formData = ''constantly-blotto'' then - 15
      else 0)"

definition outlookAdjustment :: "FormData \<Rightarrow> real" where
  "outlookAdjustment formData =
     (if outlook formData = ''optimistic'' then 2
      else if outlook formData = ''pessimistic'' then - 3
      else 0)"

definition fitnessDietAdjustment :: "FormData \<Rightarrow> real" where
  "fitnessDietAdjustment formData =
     (if includeFitnessDiet formData then
        (if fitnessLevel formData = ''ironman'' then 8
         else if fitnessLevel formData = ''very-active'' then 5
         else if fitnessLevel formData = ''moderately-active'' then 3
         else if fitnessLevel formData = ''couch-potato'' then - 4
         else 0)
        + (if dietRating formData = ''excellent'' then 4
           else if dietRating formData = ''good'' then 2
           else if dietRating formData = ''ok'' then 0
           else if dietRating formData = ''terrible'' then - 3
           else 0)
      else 0)"

text \<open>
  \<open>computeExpectedYears\<close>. The value of \<open>Math.random()\<close>, a number in \<open>[0, 1)\<close>, is the
  explicit last argument; \<open>randomFactor = (Math.random() - 0.5) * 4\<close>. The current age
  and the adjustments are finite; the baseline is whatever number the selection gave.
\<close>

definition computeExpectedYears ::
  "FormData \<Rightarrow> PredictionMode \<Rightarrow> LifeExpectancyByCountry \<Rightarrow> real \<Rightarrow> number option \<Rightarrow>
   (FormData \<Rightarrow> real \<Rightarrow> number option \<Rightarrow> 'mi completion) \<Rightarrow>
   ('mi \<Rightarrow> number option completion) \<Rightarrow> real \<Rightarrow> Estimate" where
  "computeExpectedYears formData predictionMode lifeExpectancyData currentAge calculatedBMI
     prepareModelInput predictWithModel random =
     (let (baseLifeExpectancy0, used) =
            baselineSelection formData predictionMode lifeExpectancyData currentAge
              calculatedBMI prepareModelInput predictWithModel;
          ageAdjustment = currentAge * 0.1;
          baseLifeExpectancy1 = exact_sub baseLifeExpectancy0 (Fin ageAdjustment);
          baseLifeExpectancy2 =
            exact_add baseLifeExpectancy1 (Fin (bmiAdjustment formData calculatedBMI));
          baseLifeExpectancy3 = exact_add baseLifeExpectancy2 (Fin (smokingAdjustment formData));
          baseLifeExpectancy4 = exact_add baseLifeExpectancy3 (Fin (alcoholAdjustment formData));
          baseLifeExpectancy5 = exact_add baseLifeExpectancy4 (Fin (outlookAdjustment formData));
          baseLifeExpectancy6 =
            exact_add baseLifeExpectancy5 (Fin (fitnessDietAdjustment formData));
          randomFactor = (random - 0.5) * 4;
          baseLifeExpectancy7 = exact_add baseLifeExpectancy6 (Fin randomFactor)
      in \<lparr>years = exact_add (Fin currentAge)
                  (Math_max (Fin 0) (exact_sub baseLifeExpectancy7 (Fin currentAge))),
          usedModel = used\<rparr>)"

text \<open>
  The estimator of \<open>src/App.tsx\<close>, inline in its \<open>handleSubmit\<close> (lines 279 to 383): the
  rule-based baseline from that file's table, a BMI adjustment guarded by the truthiness
  of \<open>calculatedBMI\<close>, and the same later adjustments. It has no \<open>ml\<close> path: every
  number in it is finite.
\<close>

definition App_baseLifeExpectancy :: "FormData \<Rightarrow> real" where
  "App_baseLifeExpectancy formData =
     (case App_COUNTRY_LIFE_EXPECTANCY (country formData) of
        Some countryData \<Rightarrow>
          (if sex formData = ''female'' then female countryData else male countryData)
      | None \<Rightarrow> (if sex formData = ''female'' then 78 + 4 else 78))"

definition App_bmiAdjustment :: "number option \<Rightarrow> real" where
  "App_bmiAdjustment calculatedBMI =
     (case calculatedBMI of
        None \<Rightarrow> 0
      | Some b \<Rightarrow>
          (if truthy b then
             (if js_lt b (Fin 16) then - 8
              else if js_lt b (Fin 18.5) then - 3
              else if js_ge b (Fin 18.5) \<and> js_lt b (Fin 25) then 2
              else if js_ge b (Fin 25) \<and> js_lt b (Fin 30) then - 2
              else if js_ge b (Fin 30) \<and> js_lt b (Fin 35) then - 6
              else if js_ge b (Fin 35) \<and> js_lt b (Fin 40) then - 10
              else if js_ge b (Fin 40) then - 15
              else 0)
           else 0))"

definition App_totalLifeExpectancy :: "FormData \<Rightarrow> real \<Rightarrow> number option \<Rightarrow> real \<Rightarrow> real" where
  "App_totalLifeExpectancy formData currentAge calculatedBMI random =
     (let baseLifeExpectancy0 = App_baseLifeExpectancy formData;
          ageAdjustment = currentAge * 0.1;
          baseLifeExpectancy1 = baseLifeExpectancy0 - ageAdjustment;
          baseLifeExpectancy2 = baseLifeExpectancy1 + App_bmiAdjustment calculatedBMI;
          baseLifeExpectancy3 = baseLifeExpectancy2 + smokingAdjustment formData;
          baseLifeExpectancy4 = baseLifeExpectancy3 + alcoholAdjustment formData;
          baseLifeExpectancy5 = baseLifeExpectancy4 + outlookAdjustment formData;
          baseLifeExpectancy6 = baseLifeExpectancy5 + fitnessDietAdjustment formData;
          randomFactor = (random - 0.5) * 4;
          baseLifeExpectancy7 = baseLifeExpectancy6 + randomFactor
      in currentAge + max 0 (baseLifeExpectancy7 - currentAge))"

section \<open>BMI calculator\<close>

text \<open>
  \<open>parseFloat\<close> is a built-in of the language: it skips leading white space, reads the
  longest prefix that is a decimal literal (an optional sign, then \<open>Infinity\<close> or digits
  with an optional fraction and an optional exponent) and returns \<open>NaN\<close> when there is
  none; the value of the literal is rounded to binary64. Strings are sequences of 8-bit
  characters here.
\<close>

definition isStrWhiteSpaceChar :: "char \<Rightarrow> bool" where
  "isStrWhiteSpaceChar c \<longleftrightarrow>
     c = CHR 0x09 \<or> c = CHR 0x0A \<or> c = CHR 0x0B \<or> c = CHR 0x0C \<or> c = CHR 0x0D
     \<or> c = CHR '' '' \<or> c = CHR 0xA0"

definition digitValue :: "char \<Rightarrow> int option" where
  "digitValue c = map_of (zip ''0123456789'' [0, 1, 2, 3, 4, 5, 6, 7, 8, 9]) c"

definition isDecimalDigit :: "char \<Rightarrow> bool" where
  "isDecimalDigit c \<longleftrightarrow> digitValue c \<noteq> None"

definition digitsValue :: "string \<Rightarrow> int" where
  "digitsValue ds =
     foldl (\<lambda>acc c. case digitValue c of Some d \<Rightarrow> 10 * acc + d | None \<Rightarrow> acc) 0 ds"

definition exponentPart :: "string \<Rightarrow> int" where
  "exponentPart s =
     (case s of
        [] \<Rightarrow> 0
      | c # rest \<Rightarrow>
          if c = CHR ''e'' \<or> c = CHR ''E'' then
            (case rest of
               [] \<Rightarrow> 0
             | d # rest' \<Rightarrow>
                 let (negative, digits) =
                       (if d = CHR ''-'' then (True, takeWhile isDecimalDigit rest')
                        else if d = CHR ''+'' then (False, takeWhile isDecimalDigit rest')
                        else (False, takeWhile isDecimalDigit rest))
                 in if negative then - digitsValue digits else digitsValue digits)
          else 0)"

definition parseFloat :: "string \<Rightarrow> number" where
  "parseFloat inputString =
     (let trimmed = dropWhile isStrWhiteSpaceChar inputString;
          (negative, unsigned) =
            (case trimmed of
               [] \<Rightarrow> (False, [])
             | c # rest \<Rightarrow>
                 if c = CHR ''-'' then (True, rest)
                 else if c = CHR ''+'' then (False, rest)
                 else (False, trimmed))
      in if take 8 unsigned = ''Infinity'' then (if negative then NegInf else PosInf)
         else
           let intDigits = takeWhile isDecimalDigit unsigned;
               afterInt = dropWhile isDecimalDigit unsigned;
               (fracDigits, afterFrac) =
                 (case afterInt of
                    [] \<Rightarrow> ([], [])
                  | c # rest \<Rightarrow>
                      if c = CHR ''.''
                      then (takeWhile isDecimalDigit rest, dropWhile isDecimalDigit rest)
                      else ([], afterInt))
           in if intDigits = [] \<and> fracDigits = [] then NaN
              else
                let mantissa = real_of_int (digitsValue intDigits)
                      + real_of_int (digitsValue fracDigits) / 10 ^ length fracDigits;
                    exponent = exponentPart afterFrac;
                    magnitude = (if exponent \<ge> 0 then mantissa * 10 ^ nat exponent
                                 else mantissa / 10 ^ nat (- exponent))
                in fl (if negative then - magnitude else magnitude))"

text \<open>
  \<^verbatim>\<open>
  const calculateBMI = useCallback(() => {
    const weight = parseFloat(bmiData.weightValue);
    const height = parseFloat(bmiData.heightValue);
    if (!weight || !height) return;
    let weightInKg = weight;
    let heightInM = height;
    if (bmiData.weightUnit === 'pounds') { weightInKg = weight * 0.453592; }
    if (bmiData.heightUnit === 'inches') { heightInM = height * 0.0254; }
    else if (bmiData.heightUnit === 'cm') { heightInM = height / 100; }
    const bmi = weightInKg / (heightInM * heightInM);
    setCalculatedBMI(Math.round(bmi * 10) / 10);
  }, [bmiData]);
  \<close>
  The state \<open>calculatedBMI\<close> (a number or \<open>null\<close>) is passed in and returned; the
  function is the same in both versions of the application. The form offers the weight
  units \<open>kilos\<close> and \<open>pounds\<close> and the height units \<open>cm\<close> and \<open>inches\<close>. The
  literals \<open>0.453592\<close> and \<open>0.0254\<close> are the binary64 values nearest to them.
\<close>

definition calculateBMI :: "BMIData \<Rightarrow> number option \<Rightarrow> number option" where
  "calculateBMI bmiData calculatedBMI =
     (let weight = parseFloat (weightValue bmiData);
          height = parseFloat (heightValue bmiData)
      in if \<not> truthy weight \<or> \<not> truthy height then calculatedBMI
         else
           let weightInKg = (if weightUnit bmiData = ''pounds''
                             then js_mul weight (fl 0.453592) else weight);
               heightInM = (if heightUnit bmiData = ''inches'' then js_mul height (fl 0.0254)
                            else if heightUnit bmiData = ''cm'' then js_div height (Fin 100)
                            else height);
               bmi = js_div weightInKg (js_mul heightInM heightInM)
           in Some (js_div (Math_round (js_mul bmi (Fin 10))) (Fin 10)))"





text \<open>
  The same words read in binary64: the conversions, the square, the quotient, its tenfold
  and the final division by ten each rounded to the nearest representable value, and the
  rounding half up applied to the computed tenfold.
\<close>

definition binary64_weightInKg :: "string \<Rightarrow> number \<Rightarrow> number" where
  "binary64_weightInKg unit w = (if unit = ''pounds'' then js_mul w (fl 0.453592) else w)"

definition binary64_heightInM :: "string \<Rightarrow> number \<Rightarrow> number" where
  "binary64_heightInM unit h =
     (if unit = ''inches'' then js_mul h (fl 0.0254) else js_div h (Fin 100))"

definition binary64_roundHalfUp1 :: "number \<Rightarrow> number" where
  "binary64_roundHalfUp1 x = js_div (Math_round (js_mul x (Fin 10))) (Fin 10)"

definition binary64_BMI :: "string \<Rightarrow> number \<Rightarrow> string \<Rightarrow> number \<Rightarrow> number" where
  "binary64_BMI wunit w hunit h =
     binary64_roundHalfUp1
       (js_div (binary64_weightInKg wunit w)
          (js_mul (binary64_heightInM hunit h) (binary64_heightInM hunit h)))"

section \<open>Calendar projector\<close>

text \<open>
  A \<open>Date\<close> is its time value, the milliseconds since the epoch, or \<open>NaN\<close> for an
  Invalid Date: here \<open>Some t\<close> or \<open>None\<close>. The methods used by \<open>handleSubmit\<close> are
  those of the language standard (\<open>Day\<close>, \<open>TimeWithinDay\<close>, \<open>YearFromTime\<close>,
  \<open>MonthFromTime\<close>, \<open>DateFromTime\<close>, \<open>MakeDay\<close>, \<open>MakeDate\<close>, \<open>TimeClip\<close>), with the
  proleptic Gregorian calendar computed by the usual era arithmetic. \<open>MakeDay\<close> gives
  \<open>NaN\<close> when an argument is not finite, and \<open>TimeClip\<close> when the time value leaves the
  range of 8.64e15 milliseconds around the epoch. \<open>setFullYear\<close> starts from time 0 on an
  Invalid Date; \<open>setMonth\<close> and \<open>setDate\<close> leave an Invalid Date as it is. Local time is
  taken to be UTC. Months count from 0 in \<open>MonthFromTime\<close> and \<open>MakeDay\<close>.
\<close>

definition msPerDay :: int where
  "msPerDay = 86400000"

definition Day :: "int \<Rightarrow> int" where
  "Day t = t div msPerDay"

definition TimeWithinDay :: "int \<Rightarrow> int" where
  "TimeWithinDay t = t mod msPerDay"

definition daysFromCivil :: "int \<Rightarrow> int \<Rightarrow> int \<Rightarrow> int" where
  "daysFromCivil y m d =
     (let y' = (if m \<le> 2 then y - 1 else y);
          era = y' div 400;
          yoe = y' - era * 400;
          doy = (153 * (if m > 2 then m - 3 else m + 9) + 2) div 5 + d - 1;
          doe = yoe * 365 + yoe div 4 - yoe div 100 + doy
      in era * 146097 + doe - 719468)"

definition civilFromDays :: "int \<Rightarrow> int \<times> int \<times> int" where
  "civilFromDays z =
     (let z' = z + 719468;
          era = z' div 146097;
          doe = z' - era * 146097;
          yoe = (doe - doe div 1460 + doe div 36524 - doe div 146096) div 365;
          doy = doe - (365 * yoe + yoe div 4 - yoe div 100);
          mp = (5 * doy + 2) div 153;
          d = doy - (153 * mp + 2) div 5 + 1;
          m = (if mp < 10 then mp + 3 else mp - 9);
          y = yoe + era * 400
      in (if m \<le> 2 then y + 1 else y, m, d))"

definition YearFromTime :: "int \<Rightarrow> int" where
  "YearFromTime t = (case civilFromDays (Day t) of (y, m, d) \<Rightarrow> y)"

definition MonthFromTime :: "int \<Rightarrow> int" where
  "MonthFromTime t = (case civilFromDays (Day t) of (y, m, d) \<Rightarrow> m - 1)"

definition DateFromTime :: "int \<Rightarrow> int" where
  "DateFromTime t = (case civilFromDays (Day t) of (y, m, d) \<Rightarrow> d)"

text \<open>The integer of a finite number, truncated towards zero; none for \<open>NaN\<close> and the
  infinities.\<close>

definition finiteInteger :: "number \<Rightarrow> int option" where
  "finiteInteger n =
     (case n of Fin x \<Rightarrow> Some (if x \<ge> 0 then \<lfloor>x\<rfloor> else \<lceil>x\<rceil>) | _ \<Rightarrow> None)"

definition MakeDay :: "number \<Rightarrow> number \<Rightarrow> number \<Rightarrow> int option" where
  "MakeDay year month date =
     (case finiteInteger year of
        None \<Rightarrow> None
      | Some y \<Rightarrow>
          (case finiteInteger month of
             None \<Rightarrow> None
           | Some m \<Rightarrow>
               (case finiteInteger date of
                  None \<Rightarrow> None
                | Some dt \<Rightarrow>
                    (let ym = y + m div 12;
                         mn = m mod 12
                     in Some (daysFromCivil ym (mn + 1) 1 + dt - 1)))))"

definition MakeDate :: "int option \<Rightarrow> int \<Rightarrow> int option" where
  "MakeDate day time = (case day of None \<Rightarrow> None | Some dy \<Rightarrow> Some (dy * msPerDay + time))"

definition TimeClip :: "int option \<Rightarrow> int option" where
  "TimeClip time =
     (case time of
        None \<Rightarrow> None
      | Some t \<Rightarrow> if \<bar>t\<bar> > 8640000000000000 then None else Some t)"

definition getFullYear :: "int option \<Rightarrow> number" where
  "getFullYear date = (case date of None \<Rightarrow> NaN | Some t \<Rightarrow> Fin (of_int (YearFromTime t)))"

definition getMonth :: "int option \<Rightarrow> number" where
  "getMonth date = (case date of None \<Rightarrow> NaN | Some t \<Rightarrow> Fin (of_int (MonthFromTime t)))"

definition getDate :: "int option \<Rightarrow> number" where
  "getDate date = (case date of None \<Rightarrow> NaN | Some t \<Rightarrow> Fin (of_int (DateFromTime t)))"

definition setFullYear :: "int option \<Rightarrow> number \<Rightarrow> int option" where
  "setFullYear date year =
     (let t = (case date of None \<Rightarrow> 0 | Some t \<Rightarrow> t)
      in TimeClip (MakeDate
           (MakeDay year (Fin (of_int (MonthFromTime t))) (Fin (of_int (DateFromTime t))))
           (TimeWithinDay t)))"

definition setMonth :: "int option \<Rightarrow> number \<Rightarrow> int option" where
  "setMonth date month =
     (case date of
        None \<Rightarrow> None
      | Some t \<Rightarrow>
          TimeClip (MakeDate
            (MakeDay (Fin (of_int (YearFromTime t))) month (Fin (of_int (DateFromTime t))))
            (TimeWithinDay t)))"

definition setDate :: "int option \<Rightarrow> number \<Rightarrow> int option" where
  "setDate date dt =
     (case date of
        None \<Rightarrow> None
      | Some t \<Rightarrow>
          TimeClip (MakeDate
            (MakeDay (Fin (of_int (YearFromTime t))) (Fin (of_int (MonthFromTime t))) dt)
            (TimeWithinDay t)))"

text \<open>
  Lines 740 to 747 of \<open>handleSubmit\<close>: the death date from the birth date and the
  expected lifespan, the \<open>years\<close> of the estimate.
  \<^verbatim>\<open>
  const deathDate = new Date(birthDate);
  const totalYears = Math.floor(totalLifeExpectancy);
  const remainingMonths = Math.floor((totalLifeExpectancy - totalYears) * 12);
  const remainingDays = Math.floor(((totalLifeExpectancy - totalYears) * 12 - remainingMonths) * 30.44);
  deathDate.setFullYear(birthDate.getFullYear() + totalYears);
  deathDate.setMonth(birthDate.getMonth() + remainingMonths);
  deathDate.setDate(birthDate.getDate() + remainingDays);
  \<close>
\<close>

definition handleSubmit_deathDate :: "int option \<Rightarrow> number \<Rightarrow> int option" where
  "handleSubmit_deathDate birthDate totalLifeExpectancy =
     (let deathDate0 = birthDate;
          totalYears = Math_floor totalLifeExpectancy;
          remainingMonths = Math_floor (js_mul (js_sub totalLifeExpectancy totalYears) (Fin 12));
          remainingDays =
            Math_floor (js_mul
              (js_sub (js_mul (js_sub totalLifeExpectancy totalYears) (Fin 12)) remainingMonths)
              (fl 30.44));
          deathDate1 = setFullYear deathDate0 (js_add (getFullYear birthDate) totalYears);
          deathDate2 = setMonth deathDate1 (js_add (getMonth birthDate) remainingMonths);
          deathDate3 = setDate deathDate2 (js_add (getDate birthDate) remainingDays)
      in deathDate3)"

text \<open>The time constants of the program.\<close>

definition MS_IN_SECOND :: int where
  "MS_IN_SECOND = 1000"

definition MS_IN_MINUTE :: int where
  "MS_IN_MINUTE = MS_IN_SECOND * 60"

definition MS_IN_HOUR :: int where
  "MS_IN_HOUR = MS_IN_MINUTE * 60"

definition MS_IN_DAY :: int where
  "MS_IN_DAY = MS_IN_HOUR * 24"

definition DAYS_IN_YEAR :: real where
  "DAYS_IN_YEAR = 365.25"

text \<open>
  Lines 750 to 755 and 811 to 817 of \<open>handleSubmit\<close>: the remaining duration between a
  valid death date and today, each component clamped by \<open>Math.max(0, _)\<close> when it is
  stored.
\<close>

definition handleSubmit_countdown :: "int \<Rightarrow> int \<Rightarrow> CountdownTime" where
  "handleSubmit_countdown deathDate today =
     (let timeDiff = deathDate - today;
          daysRemaining = \<lfloor>real_of_int timeDiff / real_of_int MS_IN_DAY\<rfloor>;
          hoursRemaining = \<lfloor>real_of_int (js_rem timeDiff MS_IN_DAY) / real_of_int MS_IN_HOUR\<rfloor>;
          minutesRemaining = \<lfloor>real_of_int (js_rem timeDiff MS_IN_HOUR) / real_of_int MS_IN_MINUTE\<rfloor>;
          secondsRemaining = \<lfloor>real_of_int (js_rem timeDiff MS_IN_MINUTE) / real_of_int MS_IN_SECOND\<rfloor>;
          approximateYears = \<lfloor>real_of_int daysRemaining / DAYS_IN_YEAR\<rfloor>
      in \<lparr>daysRemaining = max 0 daysRemaining,
          hoursRemaining = max 0 hoursRemaining,
          minutesRemaining = max 0 minutesRemaining,
          secondsRemaining = max 0 secondsRemaining,
          approximateYears = max 0 approximateYears\<rparr>)"

section \<open>Date formatting: the ordinal suffix\<close>

text \<open>
  \<^verbatim>\<open>
  const getOrdinalSuffix = (day: number) => {
    if (day > 3 && day < 21) return 'th';
    switch (day % 10) {
      case 1: return 'st';
      case 2: return 'nd';
      case 3: return 'rd';
      default: return 'th';
    }
  };
  \<close>
  Its only callers pass \<open>Date.getDate()\<close>, an integer.
\<close>

definition getOrdinalSuffix :: "int \<Rightarrow> string" where
  "getOrdinalSuffix day =
     (if day > 3 \<and> day < 21 then ''th''
      else if js_rem day 10 = 1 then ''st''
      else if js_rem day 10 = 2 then ''nd''
      else if js_rem day 10 = 3 then ''rd''
      else ''th'')"

section \<open>Countdown clock\<close>

text \<open>
  \<open>updateCountdown\<close> (lines 851 to 879) recomputes the remaining duration against the
  stored target, here a valid date; \<open>setCurrentTime\<close> replaces the state, which is the
  value returned here.
\<close>

definition updateCountdown :: "int \<Rightarrow> int \<Rightarrow> CountdownTime" where
  "updateCountdown target now =
     (let timeDiff = target - now
      in if timeDiff \<le> 0 then
           \<lparr>daysRemaining = 0, hoursRemaining = 0, minutesRemaining = 0,
            secondsRemaining = 0, approximateYears = 0\<rparr>
         else
           let daysRemaining = \<lfloor>real_of_int timeDiff / (1000 * 60 * 60 * 24)\<rfloor>;
               hoursRemaining =
                 \<lfloor>real_of_int (js_rem timeDiff (1000 * 60 * 60 * 24)) / (1000 * 60 * 60)\<rfloor>;
               minutesRemaining =
                 \<lfloor>real_of_int (js_rem timeDiff (1000 * 60 * 60)) / (1000 * 60)\<rfloor>;
               secondsRemaining = \<lfloor>real_of_int (js_rem timeDiff (1000 * 60)) / 1000\<rfloor>;
               approximateYears = \<lfloor>real_of_int daysRemaining / 365.25\<rfloor>
           in \<lparr>daysRemaining = daysRemaining, hoursRemaining = hoursRemaining,
               minutesRemaining = minutesRemaining, secondsRemaining = secondsRemaining,
               approximateYears = approximateYears\<rparr>)"

text \<open>
  The clock as a state machine over the three pieces of state it involves. A submission
  stores the target and the first countdown; a tick does nothing unless a result is
  displayed (\<open>if (!isSubmitted || !deathResults.targetDeathDate) return\<close>); a retake
  resets everything.
\<close>

record ClockState =
  isSubmitted :: bool
  targetDeathDate :: "int option"
  currentTime :: CountdownTime

datatype ClockEvent = Submitted int int | Ticked int | Retaken

definition INITIAL_CLOCK :: ClockState where
  "INITIAL_CLOCK =
     \<lparr>isSubmitted = False, targetDeathDate = None, currentTime = INITIAL_COUNTDOWN_TIME\<rparr>"

fun clockStep :: "ClockState \<Rightarrow> ClockEvent \<Rightarrow> ClockState" where
  "clockStep s (Submitted deathDate today) =
     \<lparr>isSubmitted = True, targetDeathDate = Some deathDate,
      currentTime = handleSubmit_countdown deathDate today\<rparr>"
| "clockStep s (Ticked now) =
     (case targetDeathDate s of
        None \<Rightarrow> s
      | Some target \<Rightarrow>
          if isSubmitted s then s\<lparr>currentTime := updateCountdown target now\<rparr> else s)"
| "clockStep s Retaken = INITIAL_CLOCK"

definition clockRun :: "ClockState \<Rightarrow> ClockEvent list \<Rightarrow> ClockState" where
  "clockRun s events = foldl clockStep s events"

definition allZero :: "CountdownTime \<Rightarrow> bool" where
  "allZero c \<longleftrightarrow>
     daysRemaining c = 0 \<and> hoursRemaining c = 0 \<and> minutesRemaining c = 0
     \<and> secondsRemaining c = 0 \<and> approximateYears c = 0"

definition noneNegative :: "CountdownTime \<Rightarrow> bool" where
  "noneNegative c \<longleftrightarrow>
     0 \<le> daysRemaining c \<and> 0 \<le> hoursRemaining c \<and> 0 \<le> minutesRemaining c
     \<and> 0 \<le> secondsRemaining c \<and> 0 \<le> approximateYears c"

text \<open>
  The two decompositions on dates that may be invalid. \<open>getTime()\<close> of an Invalid Date
  is \<open>NaN\<close>; then \<open>timeDiff\<close> is \<open>NaN\<close>, the test \<open>timeDiff <= 0\<close> is false,
  \<open>Math.floor\<close>, \<open>%\<close> and \<open>Math.max(0, _)\<close> all give \<open>NaN\<close>, and every one of the five
  components is \<open>NaN\<close>.
\<close>

datatype Remaining = Components CountdownTime | AllNaN

definition handleSubmit_countdown_Date :: "int option \<Rightarrow> int option \<Rightarrow> Remaining" where
  "handleSubmit_countdown_Date deathDate today =
     (case deathDate of
        None \<Rightarrow> AllNaN
      | Some d \<Rightarrow>
          (case today of None \<Rightarrow> AllNaN | Some t \<Rightarrow> Components (handleSubmit_countdown d t)))"

definition updateCountdown_Date :: "int option \<Rightarrow> int option \<Rightarrow> Remaining" where
  "updateCountdown_Date target now =
     (case target of
        None \<Rightarrow> AllNaN
      | Some d \<Rightarrow> (case now of None \<Rightarrow> AllNaN | Some t \<Rightarrow> Components (updateCountdown d t)))"

definition remainingAllZero :: "Remaining \<Rightarrow> bool" where
  "remainingAllZero r = (case r of Components c \<Rightarrow> allZero c | AllNaN \<Rightarrow> False)"

section \<open>Example inputs\<close>

text \<open>The profile of the end-to-end scenario (Japan, male, no adjustments), the same
  profile with sex \<open>other\<close>, a female profile from a country outside the table, and
  predictors that fail: one that resolves to \<open>null\<close>, one that rejects, and an inference
  that throws; a predictor whose output is \<open>NaN\<close> and one that predicts 90 years.\<close>

definition scenario_profile :: FormData where
  "scenario_profile =
     \<lparr>birthDay = ''1'', birthMonth = ''1'', birthYear = ''2000'', sex = ''male'',
      smoker = False, bmi = '''', outlook = ''neutral'', alcoholConsumption = '''',
      country = ''Japan'', includeFitnessDiet = False, fitnessLevel = '''',
      dietRating = ''''\<rparr>"

definition other_profile :: FormData where
  "other_profile = scenario_profile\<lparr>sex := ''other''\<rparr>"

definition unknown_country_profile :: FormData where
  "unknown_country_profile = scenario_profile\<lparr>sex := ''female'', country := ''Atlantis''\<rparr>"

definition noInput :: "FormData \<Rightarrow> real \<Rightarrow> number option \<Rightarrow> unit completion" where
  "noInput formData currentAge calculatedBMI = Normal ()"

definition nullPredictor :: "unit \<Rightarrow> number option completion" where
  "nullPredictor modelInput = Normal None"

definition rejectingPredictor :: "unit \<Rightarrow> number option completion" where
  "rejectingPredictor modelInput = Throw"

definition failingInference :: "unit \<Rightarrow> unit \<Rightarrow> number completion" where
  "failingInference model modelInput = Throw"

definition nanPredictor :: "unit \<Rightarrow> number option completion" where
  "nanPredictor modelInput = Normal (Some NaN)"

definition ninetyPredictor :: "unit \<Rightarrow> number option completion" where
  "ninetyPredictor modelInput = Normal (Some (Fin 90))"



definition scenario_birthDate :: "int option" where
  "scenario_birthDate = Some 946684800000"


definition negative_weight_input :: BMIData where
  "negative_weight_input =
     \<lparr>weightUnit = ''kilos'', weightValue = ''-70'', heightUnit = ''cm'',
      heightValue = ''175''\<rparr>"

definition empty_weight_input :: BMIData where
  "empty_weight_input =
     \<lparr>weightUnit = '''', weightValue = '''', heightUnit = ''cm'', heightValue = ''175''\<rparr>"

definition submitted_clock :: ClockState where
  "submitted_clock = clockRun INITIAL_CLOCK [Submitted 1000 0]"

section \<open>Properties\<close>

text \<open>The definitions that evaluate a rounding to binary64.\<close>

lemmas fl_defs = fl_def binaryExponent_def roundHalfEven_def pow2_def Let_def

subsection \<open>The estimator\<close>

lemma exact_add_Fin [simp]: "exact_add (Fin x) (Fin y) = Fin (x + y)"
  by simp

lemma exact_sub_Fin: "exact_sub (Fin x) (Fin y) = Fin (x - y)"
  by (simp add: exact_sub_def)

lemma Math_max_Fin: "Math_max (Fin x) (Fin y) = Fin (max x y)"
  by (simp add: max_def)

lemma baselineSelection_not_ml:
  "predictionMode \<noteq> Mode_ml \<Longrightarrow>
   \<exists>b. fst (baselineSelection formData predictionMode lifeExpectancyData currentAge calculatedBMI
         prepareModelInput predictWithModel) = Fin b"
  by (cases predictionMode) (simp_all add: baselineSelection_def split: option.split)

lemma baselineSelection_ml:
  "fst (baselineSelection formData Mode_ml lifeExpectancyData currentAge calculatedBMI
         prepareModelInput predictWithModel)
   = (case mlPrediction prepareModelInput predictWithModel formData currentAge calculatedBMI of
        Some prediction \<Rightarrow> prediction
      | None \<Rightarrow>
          (case lifeExpectancyData (country formData) of
             Some countryData \<Rightarrow>
               Fin (if sex formData = ''female'' then female countryData else male countryData)
           | None \<Rightarrow> Fin 100))"
  by (simp add: baselineSelection_def mlPrediction_def split: completion.split option.split)

lemma years_computeExpectedYears:
  "years (computeExpectedYears f m t a b p q r) =
     exact_add (Fin a) (Math_max (Fin 0) (exact_sub
       (exact_add (exact_add (exact_add (exact_add (exact_add (exact_add (exact_sub
          (fst (baselineSelection f m t a b p q)) (Fin (a * 0.1)))
          (Fin (bmiAdjustment f b))) (Fin (smokingAdjustment f))) (Fin (alcoholAdjustment f)))
          (Fin (outlookAdjustment f))) (Fin (fitnessDietAdjustment f))) (Fin ((r - 0.5) * 4)))
       (Fin a)))"
  by (simp add: computeExpectedYears_def Let_def split: prod.split)

lemma years_finite_baseline:
  assumes "fst (baselineSelection f m t a b p q) = Fin base"
  shows "years (computeExpectedYears f m t a b p q r) =
     Fin (a + max 0 (base - a * 0.1 + bmiAdjustment f b
       + smokingAdjustment f + alcoholAdjustment f + outlookAdjustment f
       + fitnessDietAdjustment f + (r - 0.5) * 4 - a))"
  by (simp add: years_computeExpectedYears assms exact_sub_Fin Math_max_Fin)

lemma years_PosInf_baseline:
  assumes "fst (baselineSelection f m t a b p q) = PosInf"
  shows "years (computeExpectedYears f m t a b p q r) = PosInf"
  by (simp add: years_computeExpectedYears assms exact_sub_def)

lemma years_NegInf_baseline:
  assumes "fst (baselineSelection f m t a b p q) = NegInf"
  shows "years (computeExpectedYears f m t a b p q r) = Fin a"
  by (simp add: years_computeExpectedYears assms exact_sub_def)

lemma years_NaN_baseline:
  assumes "fst (baselineSelection f m t a b p q) = NaN"
  shows "years (computeExpectedYears f m t a b p q r) = NaN"
  by (simp add: years_computeExpectedYears assms exact_sub_def)

lemma usedModel_computeExpectedYears:
  "usedModel (computeExpectedYears f m t a b p q r) = snd (baselineSelection f m t a b p q)"
  by (simp add: computeExpectedYears_def Let_def split: prod.split)


lemma table_Japan: "COUNTRY_LIFE_EXPECTANCY ''Japan'' = Some \<lparr>male = 81.6, female = 87.7\<rparr>"
  by (simp add: COUNTRY_LIFE_EXPECTANCY_def)

lemma table_Atlantis: "COUNTRY_LIFE_EXPECTANCY ''Atlantis'' = None"
  by (simp add: COUNTRY_LIFE_EXPECTANCY_def)

lemma App_table_Japan:
  "App_COUNTRY_LIFE_EXPECTANCY ''Japan'' = Some \<lparr>male = 81.6, female = 87.7\<rparr>"
  by (simp add: App_COUNTRY_LIFE_EXPECTANCY_def)

lemmas profile_defs = scenario_profile_def other_profile_def unknown_country_profile_def

text \<open>
  C3. Baseline selection before adjustments. In \<open>rule\<close> mode the baseline is the entry of
  the country table for the profile's sex when the country is a key of the table, and
  otherwise 78.0 plus 4 exactly when the sex is \<open>female\<close>. In \<open>who\<close> mode it is the
  entry of the table for the sex when the country is known, and otherwise exactly 100.0 for
  every sex. The entry for the sex is the female figure for \<open>female\<close> and the male figure
  for \<open>male\<close>.
\<close>

theorem baseline_rule_and_who:
  "(lifeExpectancyData (country formData) = Some countryData \<longrightarrow>
      fst (baselineSelection formData Mode_rule lifeExpectancyData currentAge calculatedBMI
             prepareModelInput predictWithModel)
        = Fin (if sex formData = ''female'' then female countryData else male countryData)
      \<and> fst (baselineSelection formData Mode_who lifeExpectancyData currentAge calculatedBMI
             prepareModelInput predictWithModel)
        = Fin (if sex formData = ''female'' then female countryData else male countryData))
   \<and> (lifeExpectancyData (country formData) = None \<longrightarrow>
      fst (baselineSelection formData Mode_rule lifeExpectancyData currentAge calculatedBMI
             prepareModelInput predictWithModel)
        = Fin (78.0 + (if sex formData = ''female'' then 4 else 0))
      \<and> fst (baselineSelection formData Mode_who lifeExpectancyData currentAge calculatedBMI
             prepareModelInput predictWithModel) = Fin 100.0)"
  by (simp add: baselineSelection_def)

theorem baseline_rule_and_who_witness:
  "COUNTRY_LIFE_EXPECTANCY (country scenario_profile) = Some \<lparr>male = 81.6, female = 87.7\<rparr>
   \<and> fst (baselineSelection scenario_profile Mode_rule COUNTRY_LIFE_EXPECTANCY 24 None
            noInput nullPredictor) = Fin 81.6
   \<and> fst (baselineSelection scenario_profile Mode_who COUNTRY_LIFE_EXPECTANCY 24 None
            noInput nullPredictor) = Fin 81.6
   \<and> COUNTRY_LIFE_EXPECTANCY (country unknown_country_profile) = None
   \<and> fst (baselineSelection unknown_country_profile Mode_rule COUNTRY_LIFE_EXPECTANCY 24 None
            noInput nullPredictor) = Fin 82
   \<and> fst (baselineSelection unknown_country_profile Mode_who COUNTRY_LIFE_EXPECTANCY 24 None
            noInput nullPredictor) = Fin 100"
proof -
  have known: "COUNTRY_LIFE_EXPECTANCY (country scenario_profile)
      = Some \<lparr>male = 81.6, female = 87.7\<rparr>"
    by (simp add: profile_defs table_Japan)
  have unknown: "COUNTRY_LIFE_EXPECTANCY (country unknown_country_profile) = None"
    by (simp add: profile_defs table_Atlantis)
  have male: "sex scenario_profile \<noteq> ''female''" by (simp add: profile_defs)
  have female: "sex unknown_country_profile = ''female''" by (simp add: profile_defs)
  note a = baseline_rule_and_who [of COUNTRY_LIFE_EXPECTANCY scenario_profile
      "\<lparr>male = 81.6, female = 87.7\<rparr>" 24 None noInput nullPredictor]
  note b = baseline_rule_and_who [of COUNTRY_LIFE_EXPECTANCY unknown_country_profile
      "\<lparr>male = 81.6, female = 87.7\<rparr>" 24 None noInput nullPredictor]
  from a known male b unknown female show ?thesis by simp
qed

text \<open>
  C10. For every country that is a key of the baseline table, in the \<open>rule\<close> and in the
  \<open>who\<close> strategy, a profile whose sex is \<open>other\<close>, or any value other than
  \<open>female\<close>, receives the male expectancy of the country as its baseline: the entry is
  chosen by a test for \<open>female\<close>, with no third branch. The same holds for the inline
  baseline of \<open>src/App.tsx\<close>.
\<close>

theorem other_sex_gets_male_entry:
  assumes "sex formData \<noteq> ''female''"
  shows "(lifeExpectancyData (country formData) = Some countryData \<longrightarrow>
            fst (baselineSelection formData Mode_rule lifeExpectancyData currentAge
                   calculatedBMI prepareModelInput predictWithModel) = Fin (male countryData)
          \<and> fst (baselineSelection formData Mode_who lifeExpectancyData currentAge
                   calculatedBMI prepareModelInput predictWithModel) = Fin (male countryData))
       \<and> (App_COUNTRY_LIFE_EXPECTANCY (country formData) = Some countryData' \<longrightarrow>
            App_baseLifeExpectancy formData = male countryData')"
  using assms by (simp add: baselineSelection_def App_baseLifeExpectancy_def)

theorem other_sex_gets_male_entry_witness:
  "sex other_profile = ''other'' \<and> ''other'' \<noteq> ''female''
   \<and> COUNTRY_LIFE_EXPECTANCY (country other_profile) = Some \<lparr>male = 81.6, female = 87.7\<rparr>
   \<and> fst (baselineSelection other_profile Mode_rule COUNTRY_LIFE_EXPECTANCY 24 None
            noInput nullPredictor) = Fin 81.6
   \<and> fst (baselineSelection other_profile Mode_who COUNTRY_LIFE_EXPECTANCY 24 None
            noInput nullPredictor) = Fin 81.6
   \<and> App_baseLifeExpectancy other_profile = 81.6"
proof -
  have s: "sex other_profile = ''other''" by (simp add: profile_defs)
  have ne: "''other'' \<noteq> ''female''" by simp
  have h: "sex other_profile \<noteq> ''female''" by (simp add: s)
  have k: "COUNTRY_LIFE_EXPECTANCY (country other_profile)
      = Some \<lparr>male = 81.6, female = 87.7\<rparr>"
    by (simp add: profile_defs table_Japan)
  have k': "App_COUNTRY_LIFE_EXPECTANCY (country other_profile)
      = Some \<lparr>male = 81.6, female = 87.7\<rparr>"
    by (simp add: profile_defs App_table_Japan)
  from other_sex_gets_male_entry [OF h, of COUNTRY_LIFE_EXPECTANCY
      "\<lparr>male = 81.6, female = 87.7\<rparr>" 24 None noInput nullPredictor
      "\<lparr>male = 81.6, female = 87.7\<rparr>"] s ne k k'
  show ?thesis by simp
qed

text \<open>
  C1 as stated covers every strategy. In \<open>ml\<close> mode any prediction that is not \<open>null\<close>
  becomes the baseline; a prediction of \<open>NaN\<close> makes every later sum, \<open>Math.max(0, _)\<close>
  and the result \<open>NaN\<close>, the reported model is \<open>ml\<close>, and \<open>NaN >= 24\<close> is false.
\<close>

theorem NaN_prediction_counterexample:
  "mlPrediction noInput nanPredictor scenario_profile 24 None = Some NaN
   \<and> computeExpectedYears scenario_profile Mode_ml COUNTRY_LIFE_EXPECTANCY 24 None
        noInput nanPredictor 0.5 = \<lparr>years = NaN, usedModel = Mode_ml\<rparr>
   \<and> \<not> js_ge (years (computeExpectedYears scenario_profile Mode_ml COUNTRY_LIFE_EXPECTANCY
        24 None noInput nanPredictor 0.5)) (Fin 24)"
proof -
  have p: "mlPrediction noInput nanPredictor scenario_profile 24 None = Some NaN"
    by (simp add: mlPrediction_def noInput_def nanPredictor_def)
  have b: "baselineSelection scenario_profile Mode_ml COUNTRY_LIFE_EXPECTANCY 24 None
      noInput nanPredictor = (NaN, Mode_ml)"
    by (simp add: baselineSelection_def noInput_def nanPredictor_def)
  have e: "computeExpectedYears scenario_profile Mode_ml COUNTRY_LIFE_EXPECTANCY 24 None
        noInput nanPredictor 0.5 = \<lparr>years = NaN, usedModel = Mode_ml\<rparr>"
    by (simp add: computeExpectedYears_def b exact_sub_def)
  from p e show ?thesis by simp
qed

text \<open>
  C1, amended. For every profile, current age and jitter, in the \<open>rule\<close> and \<open>who\<close>
  strategies, and in the \<open>ml\<close> strategy whenever the predictor fails or its value is not
  \<open>NaN\<close>, the expected total lifespan returned by \<open>computeExpectedYears\<close> is greater than
  or equal to the current age, the result being \<open>currentAge + max(0, baseline - currentAge)\<close>.
  The inline estimator of \<open>src/App.tsx\<close>, which has no \<open>ml\<close> strategy, has the bound
  without condition.
\<close>

theorem expected_years_ge_currentAge:
  assumes "predictionMode = Mode_ml \<longrightarrow>
    mlPrediction prepareModelInput predictWithModel formData currentAge calculatedBMI \<noteq> Some NaN"
  shows "js_ge (years (computeExpectedYears formData predictionMode lifeExpectancyData
            currentAge calculatedBMI prepareModelInput predictWithModel random))
           (Fin currentAge)
       \<and> currentAge \<le> App_totalLifeExpectancy formData currentAge calculatedBMI random"
proof -
  let ?base = "fst (baselineSelection formData predictionMode lifeExpectancyData currentAge
      calculatedBMI prepareModelInput predictWithModel)"
  have notNaN: "?base \<noteq> NaN"
  proof (cases "predictionMode = Mode_ml")
    case True
    with assms show ?thesis
      by (auto simp add: baselineSelection_ml split: option.split)
  next
    case False
    from baselineSelection_not_ml [OF this] obtain b where "?base = Fin b" by blast
    then show ?thesis by simp
  qed
  have "js_ge (years (computeExpectedYears formData predictionMode lifeExpectancyData
            currentAge calculatedBMI prepareModelInput predictWithModel random))
           (Fin currentAge)"
  proof (cases ?base)
    case NaN
    with notNaN show ?thesis by simp
  next
    case PosInf
    then show ?thesis by (simp add: years_PosInf_baseline)
  next
    case NegInf
    then show ?thesis by (simp add: years_NegInf_baseline)
  next
    case (Fin b)
    then show ?thesis by (simp add: years_finite_baseline)
  qed
  moreover have "currentAge \<le> App_totalLifeExpectancy formData currentAge calculatedBMI random"
    by (simp add: App_totalLifeExpectancy_def Let_def)
  ultimately show ?thesis by (rule conjI)
qed


lemma ninety_years:
  "years (computeExpectedYears scenario_profile Mode_ml COUNTRY_LIFE_EXPECTANCY 24
            None noInput ninetyPredictor 0.5) = Fin 87.6"
proof -
  have "fst (baselineSelection scenario_profile Mode_ml COUNTRY_LIFE_EXPECTANCY 24
            None noInput ninetyPredictor) = Fin 90"
    by (simp add: baselineSelection_def noInput_def ninetyPredictor_def)
  from years_finite_baseline [OF this] show ?thesis
    by (simp add: profile_defs bmiAdjustment_def bmiFromCategory_def smokingAdjustment_def
        alcoholAdjustment_def outlookAdjustment_def fitnessDietAdjustment_def)
qed

theorem expected_years_ge_currentAge_witness:
  "mlPrediction noInput ninetyPredictor scenario_profile 24 None = Some (Fin 90)
   \<and> Fin 90 \<noteq> NaN
   \<and> years (computeExpectedYears scenario_profile Mode_ml COUNTRY_LIFE_EXPECTANCY 24
            None noInput ninetyPredictor 0.5) = Fin 87.6
   \<and> js_ge (years (computeExpectedYears scenario_profile Mode_ml COUNTRY_LIFE_EXPECTANCY 24
            None noInput ninetyPredictor 0.5)) (Fin 24)
   \<and> js_ge (years (computeExpectedYears scenario_profile Mode_who COUNTRY_LIFE_EXPECTANCY 24
            None noInput nullPredictor 0.5)) (Fin 24)
   \<and> (24::real) \<le> App_totalLifeExpectancy scenario_profile 24 None 0.5"
proof -
  have p: "mlPrediction noInput ninetyPredictor scenario_profile 24 None = Some (Fin 90)"
    by (simp add: mlPrediction_def noInput_def ninetyPredictor_def)
  then have h1: "Mode_ml = Mode_ml \<longrightarrow>
      mlPrediction noInput ninetyPredictor scenario_profile 24 None \<noteq> Some NaN"
    by simp
  have h2: "Mode_who = Mode_ml \<longrightarrow>
      mlPrediction noInput nullPredictor scenario_profile 24 None \<noteq> Some NaN"
    by simp
  note t1 = expected_years_ge_currentAge [OF h1, of COUNTRY_LIFE_EXPECTANCY "0.5"]
  note t2 = expected_years_ge_currentAge [OF h2, of COUNTRY_LIFE_EXPECTANCY "0.5"]
  from t1 have a: "js_ge (years (computeExpectedYears scenario_profile Mode_ml
      COUNTRY_LIFE_EXPECTANCY 24 None noInput ninetyPredictor 0.5)) (Fin 24)"
    by (rule conjunct1)
  from t2 have b: "js_ge (years (computeExpectedYears scenario_profile Mode_who
      COUNTRY_LIFE_EXPECTANCY 24 None noInput nullPredictor 0.5)) (Fin 24)"
    by (rule conjunct1)
  from t2 have c: "(24::real) \<le> App_totalLifeExpectancy scenario_profile 24 None 0.5"
    by (rule conjunct2)
  have d: "Fin 90 \<noteq> NaN" by simp
  from p d ninety_years a b c show ?thesis by blast
qed



text \<open>
  C2. When the estimator runs in \<open>ml\<close> mode and the predictor fails (preparing the input
  throws, the prediction rejects, or it resolves to \<open>null\<close>), the baseline is what the
  \<open>who\<close> strategy gives for the same profile, the entry of the country for the sex if the
  country is known and 100 otherwise, the whole estimate equals that of the \<open>who\<close> mode,
  and the reported model is \<open>who\<close>. The estimator has no abrupt completion of its own:
  the failure stays inside its \<open>try\<close>.
\<close>

theorem ml_failure_falls_back_to_who:
  assumes "mlFails prepareModelInput predictWithModel formData currentAge calculatedBMI"
  shows "fst (baselineSelection formData Mode_ml lifeExpectancyData currentAge calculatedBMI
                prepareModelInput predictWithModel)
           = (case lifeExpectancyData (country formData) of
                Some countryData \<Rightarrow>
                  Fin (if sex formData = ''female'' then female countryData
                       else male countryData)
              | None \<Rightarrow> Fin 100)
       \<and> baselineSelection formData Mode_ml lifeExpectancyData currentAge calculatedBMI
            prepareModelInput predictWithModel
           = baselineSelection formData Mode_who lifeExpectancyData currentAge calculatedBMI
               prepareModelInput predictWithModel
       \<and> computeExpectedYears formData Mode_ml lifeExpectancyData currentAge calculatedBMI
            prepareModelInput predictWithModel random
           = computeExpectedYears formData Mode_who lifeExpectancyData currentAge
               calculatedBMI prepareModelInput predictWithModel random
       \<and> usedModel (computeExpectedYears formData Mode_ml lifeExpectancyData currentAge
            calculatedBMI prepareModelInput predictWithModel random) = Mode_who"
proof -
  have sel: "baselineSelection formData Mode_ml lifeExpectancyData currentAge calculatedBMI
           prepareModelInput predictWithModel
         = baselineSelection formData Mode_who lifeExpectancyData currentAge calculatedBMI
           prepareModelInput predictWithModel"
    using assms
    by (auto simp add: baselineSelection_def mlFails_def split: completion.splits option.splits)
  have who: "baselineSelection formData Mode_who lifeExpectancyData currentAge calculatedBMI
           prepareModelInput predictWithModel = ((case lifeExpectancyData (country formData) of
              Some countryData \<Rightarrow>
                Fin (if sex formData = ''female'' then female countryData else male countryData)
            | None \<Rightarrow> Fin 100), Mode_who)"
    by (simp add: baselineSelection_def split: option.splits)
  have comp: "computeExpectedYears formData Mode_ml lifeExpectancyData currentAge calculatedBMI
           prepareModelInput predictWithModel random
         = computeExpectedYears formData Mode_who lifeExpectancyData currentAge calculatedBMI
           prepareModelInput predictWithModel random"
    unfolding computeExpectedYears_def sel ..
  have used: "usedModel (computeExpectedYears formData Mode_ml lifeExpectancyData currentAge
           calculatedBMI prepareModelInput predictWithModel random) = Mode_who"
    by (simp add: usedModel_computeExpectedYears sel who)
  from sel who comp used show ?thesis by simp
qed

lemma predictWithModel_callback_unavailable:
  "predictWithModel_callback Throw inference modelInput = Normal None"
  by (simp add: predictWithModel_callback_def loadTFModel_def)

lemma predictWithModel_callback_inference_throws:
  "inference model modelInput = Throw \<Longrightarrow>
   predictWithModel_callback (Normal model) inference modelInput = Normal None"
  by (simp add: predictWithModel_callback_def loadTFModel_def)

theorem ml_failure_falls_back_to_who_witness:
  "mlFails noInput (predictWithModel_callback Throw failingInference) scenario_profile 24 None
   \<and> fst (baselineSelection scenario_profile Mode_ml COUNTRY_LIFE_EXPECTANCY 24 None
            noInput (predictWithModel_callback Throw failingInference)) = Fin 81.6
   \<and> usedModel (computeExpectedYears scenario_profile Mode_ml COUNTRY_LIFE_EXPECTANCY 24 None
            noInput (predictWithModel_callback Throw failingInference) 0.5) = Mode_who
   \<and> mlFails noInput (predictWithModel_callback (Normal ()) failingInference)
        unknown_country_profile 24 None
   \<and> fst (baselineSelection unknown_country_profile Mode_ml COUNTRY_LIFE_EXPECTANCY 24 None
            noInput (predictWithModel_callback (Normal ()) failingInference)) = Fin 100
   \<and> mlFails noInput rejectingPredictor unknown_country_profile 24 None
   \<and> usedModel (computeExpectedYears unknown_country_profile Mode_ml COUNTRY_LIFE_EXPECTANCY
            24 None noInput rejectingPredictor 0.5) = Mode_who"
proof -
  have f1: "mlFails noInput (predictWithModel_callback Throw failingInference)
      scenario_profile 24 None"
    by (simp add: mlFails_def noInput_def predictWithModel_callback_unavailable)
  have f2: "mlFails noInput (predictWithModel_callback (Normal ()) failingInference)
      unknown_country_profile 24 None"
    by (simp add: mlFails_def noInput_def predictWithModel_callback_inference_throws
        failingInference_def)
  have f3: "mlFails noInput rejectingPredictor unknown_country_profile 24 None"
    by (simp add: mlFails_def noInput_def rejectingPredictor_def)
  have k1: "COUNTRY_LIFE_EXPECTANCY (country scenario_profile)
      = Some \<lparr>male = 81.6, female = 87.7\<rparr>" and s1: "sex scenario_profile \<noteq> ''female''"
    by (simp_all add: profile_defs table_Japan)
  have k2: "COUNTRY_LIFE_EXPECTANCY (country unknown_country_profile) = None"
    by (simp add: profile_defs table_Atlantis)
  note t1 = ml_failure_falls_back_to_who [OF f1, of COUNTRY_LIFE_EXPECTANCY "0.5"]
  note t2 = ml_failure_falls_back_to_who [OF f2, of COUNTRY_LIFE_EXPECTANCY "0.5"]
  note t3 = ml_failure_falls_back_to_who [OF f3, of COUNTRY_LIFE_EXPECTANCY "0.5"]
  from t1 have "fst (baselineSelection scenario_profile Mode_ml COUNTRY_LIFE_EXPECTANCY 24 None
            noInput (predictWithModel_callback Throw failingInference))
      = (case COUNTRY_LIFE_EXPECTANCY (country scenario_profile) of
           Some countryData \<Rightarrow>
             Fin (if sex scenario_profile = ''female'' then female countryData
                  else male countryData)
         | None \<Rightarrow> Fin 100)"
    by (rule conjunct1)
  then have b1: "fst (baselineSelection scenario_profile Mode_ml COUNTRY_LIFE_EXPECTANCY 24
            None noInput (predictWithModel_callback Throw failingInference)) = Fin 81.6"
    by (simp add: k1 s1)
  from t1 have u1: "usedModel (computeExpectedYears scenario_profile Mode_ml
            COUNTRY_LIFE_EXPECTANCY 24 None noInput
            (predictWithModel_callback Throw failingInference) 0.5) = Mode_who"
    by blast
  from t2 have "fst (baselineSelection unknown_country_profile Mode_ml COUNTRY_LIFE_EXPECTANCY
            24 None noInput (predictWithModel_callback (Normal ()) failingInference))
      = (case COUNTRY_LIFE_EXPECTANCY (country unknown_country_profile) of
           Some countryData \<Rightarrow>
             Fin (if sex unknown_country_profile = ''female'' then female countryData
                  else male countryData)
         | None \<Rightarrow> Fin 100)"
    by (rule conjunct1)
  then have b2: "fst (baselineSelection unknown_country_profile Mode_ml COUNTRY_LIFE_EXPECTANCY
            24 None noInput (predictWithModel_callback (Normal ()) failingInference)) = Fin 100"
    by (simp add: k2)
  from t3 have u3: "usedModel (computeExpectedYears unknown_country_profile Mode_ml
            COUNTRY_LIFE_EXPECTANCY 24 None noInput rejectingPredictor 0.5) = Mode_who"
    by blast
  from f1 b1 u1 f2 b2 f3 u3 show ?thesis by blast
qed

subsection \<open>The BMI calculator\<close>

lemmas parseFloat_defs = parseFloat_def isStrWhiteSpaceChar_def isDecimalDigit_def
  digitValue_def digitsValue_def exponentPart_def


lemma parseFloat_175: "parseFloat ''175'' = Fin 175"
  by (simp add: parseFloat_defs fl_defs)





lemma parseFloat_minus_70: "parseFloat ''-70'' = Fin (- 70)"
  by (simp add: parseFloat_defs fl_defs)

lemma parseFloat_empty: "parseFloat '''' = NaN"
  by (simp add: parseFloat_defs)


lemma fl_minus_22_9: "fl (- 22.9) = Fin (- (3222888483337011 / 140737488355328))"
  by (simp add: fl_defs)




lemma calculateBMI_finite:
  assumes "parseFloat (weightValue bmiData) = Fin w" and "parseFloat (heightValue bmiData) = Fin h"
    and "w \<noteq> 0" and "h \<noteq> 0"
  shows "calculateBMI bmiData calculatedBMI =
     Some (js_div (Math_round (js_mul
        (js_div (if weightUnit bmiData = ''pounds'' then js_mul (Fin w) (fl 0.453592) else Fin w)
           (js_mul
              (if heightUnit bmiData = ''inches'' then js_mul (Fin h) (fl 0.0254)
               else if heightUnit bmiData = ''cm'' then js_div (Fin h) (Fin 100) else Fin h)
              (if heightUnit bmiData = ''inches'' then js_mul (Fin h) (fl 0.0254)
               else if heightUnit bmiData = ''cm'' then js_div (Fin h) (Fin 100) else Fin h)))
        (Fin 10))) (Fin 10))"
  using assms by (simp add: calculateBMI_def Let_def)



lemma binary64_BMI_minus_70_175: "binary64_BMI ''kilos'' (Fin (- 70)) ''cm'' (Fin 175) = fl (- 22.9)"
  unfolding fl_minus_22_9
  by (simp add: binary64_BMI_def binary64_roundHalfUp1_def binary64_weightInKg_def
      binary64_heightInM_def fl_defs)


lemma calculateBMI_binary64_BMI:
  assumes "parseFloat (weightValue bmiData) = Fin w" and "parseFloat (heightValue bmiData) = Fin h"
    and "w \<noteq> 0" and "h \<noteq> 0"
    and "heightUnit bmiData = ''cm'' \<or> heightUnit bmiData = ''inches''"
  shows "calculateBMI bmiData calculatedBMI
           = Some (binary64_BMI (weightUnit bmiData) (Fin w) (heightUnit bmiData) (Fin h))"
  using assms(5)
  by (auto simp add: calculateBMI_finite [OF assms(1-4)] binary64_BMI_def
      binary64_roundHalfUp1_def binary64_weightInKg_def binary64_heightInM_def)





text \<open>
  C6 as stated asks for no effect whenever the weight or the height is not a strictly
  positive number. The guard of the calculator is \<open>!weight || !height\<close>, which lets a
  negative number through: a weight of \<open>-70\<close> with a height of 175 cm stores \<open>-22.9\<close>.
\<close>

theorem calculateBMI_negative_weight_counterexample:
  "parseFloat (weightValue negative_weight_input) = Fin (- 70)
   \<and> \<not> (0::real) < - 70
   \<and> calculateBMI negative_weight_input None = Some (fl (- 22.9))
   \<and> calculateBMI negative_weight_input None \<noteq> None"
proof -
  have a: "parseFloat (weightValue negative_weight_input) = Fin (- 70)"
    by (simp add: negative_weight_input_def parseFloat_minus_70)
  have b: "parseFloat (heightValue negative_weight_input) = Fin 175"
    by (simp add: negative_weight_input_def parseFloat_175)
  have u: "weightUnit negative_weight_input = ''kilos''" "heightUnit negative_weight_input = ''cm''"
    by (simp_all add: negative_weight_input_def)
  have "calculateBMI negative_weight_input None
      = Some (binary64_BMI (weightUnit negative_weight_input) (Fin (- 70))
                (heightUnit negative_weight_input) (Fin 175))"
    by (rule calculateBMI_binary64_BMI [OF a b]) (simp_all add: u)
  then have c: "calculateBMI negative_weight_input None = Some (fl (- 22.9))"
    by (simp add: u binary64_BMI_minus_70_175)
  from a c show ?thesis by simp
qed

text \<open>
  C6, amended. For every input where the weight or the height text parses to \<open>NaN\<close> or to
  zero, invoking the BMI calculator has no effect: no BMI is produced and the stored value
  is left as it was. The calculator has no abrupt completion.
\<close>

theorem calculateBMI_noop_on_NaN_or_zero:
  assumes "parseFloat (weightValue bmiData) = NaN \<or> parseFloat (weightValue bmiData) = Fin 0
         \<or> parseFloat (heightValue bmiData) = NaN \<or> parseFloat (heightValue bmiData) = Fin 0"
  shows "calculateBMI bmiData calculatedBMI = calculatedBMI"
  using assms by (auto simp add: calculateBMI_def Let_def)

theorem calculateBMI_noop_on_NaN_or_zero_witness:
  "parseFloat (weightValue empty_weight_input) = NaN
   \<and> calculateBMI empty_weight_input (Some (fl 22.9)) = Some (fl 22.9)
   \<and> calculateBMI empty_weight_input None = None"
proof -
  have a: "parseFloat (weightValue empty_weight_input) = NaN"
    by (simp add: empty_weight_input_def parseFloat_empty)
  then have a': "parseFloat (weightValue empty_weight_input) = NaN
      \<or> parseFloat (weightValue empty_weight_input) = Fin 0
      \<or> parseFloat (heightValue empty_weight_input) = NaN
      \<or> parseFloat (heightValue empty_weight_input) = Fin 0"
    by simp
  from a calculateBMI_noop_on_NaN_or_zero [OF a', of "Some (fl 22.9)"]
    calculateBMI_noop_on_NaN_or_zero [OF a', of None]
  show ?thesis by simp
qed

subsection \<open>The countdown\<close>

lemma js_rem_nonneg: "0 \<le> a \<Longrightarrow> js_rem a b = a mod \<bar>b\<bar>"
  by (cases "a = 0") (simp_all add: js_rem_def)

lemma mod_abs_nonneg: "0 \<le> \<bar>a::int\<bar> mod \<bar>b\<bar>"
  by (cases "b = 0") simp_all

lemma js_rem_nonpos: "a \<le> 0 \<Longrightarrow> js_rem a b \<le> 0"
  using mod_abs_nonneg [of a b] by (simp add: js_rem_def mult_le_0_iff sgn_if)

lemma clamp_nonpos: "x \<le> 0 \<Longrightarrow> max 0 x = (0::int)"
  by simp

lemma floor_quotient_nonneg: "0 \<le> a \<Longrightarrow> 0 < c \<Longrightarrow> 0 \<le> \<lfloor>real_of_int a / c\<rfloor>"
  by simp

lemma floor_quotient_nonpos: "a \<le> 0 \<Longrightarrow> 0 < c \<Longrightarrow> \<lfloor>real_of_int a / c\<rfloor> \<le> 0"
proof -
  assume "a \<le> 0" and "0 < c"
  then have "real_of_int a / c \<le> 0" by (simp add: divide_nonpos_pos)
  then show ?thesis by (simp add: floor_le_iff)
qed

lemma updateCountdown_past: "target \<le> now \<Longrightarrow> allZero (updateCountdown target now)"
  by (simp add: updateCountdown_def allZero_def)

lemma updateCountdown_noneNegative: "noneNegative (updateCountdown target now)"
proof (cases "target - now \<le> 0")
  case True
  then show ?thesis by (simp add: updateCountdown_def noneNegative_def)
next
  case False
  then have pos: "0 \<le> target - now" by simp
  have d: "0 \<le> \<lfloor>real_of_int (target - now) / (1000 * 60 * 60 * 24)\<rfloor>"
    using pos by (intro floor_quotient_nonneg) simp_all
  have h: "0 \<le> \<lfloor>real_of_int (js_rem (target - now) (1000 * 60 * 60 * 24)) / (1000 * 60 * 60)\<rfloor>"
    using pos by (intro floor_quotient_nonneg) (simp_all add: js_rem_nonneg)
  have m: "0 \<le> \<lfloor>real_of_int (js_rem (target - now) (1000 * 60 * 60)) / (1000 * 60)\<rfloor>"
    using pos by (intro floor_quotient_nonneg) (simp_all add: js_rem_nonneg)
  have s: "0 \<le> \<lfloor>real_of_int (js_rem (target - now) (1000 * 60)) / 1000\<rfloor>"
    using pos by (intro floor_quotient_nonneg) (simp_all add: js_rem_nonneg)
  have y: "0 \<le> \<lfloor>real_of_int \<lfloor>real_of_int (target - now) / (1000 * 60 * 60 * 24)\<rfloor> / 365.25\<rfloor>"
    using d by (intro floor_quotient_nonneg) simp_all
  from False d h m s y show ?thesis
    by (simp add: updateCountdown_def noneNegative_def Let_def)
qed

lemma handleSubmit_countdown_noneNegative: "noneNegative (handleSubmit_countdown deathDate today)"
  by (simp add: handleSubmit_countdown_def noneNegative_def Let_def)

lemma MS_positive: "0 < real_of_int MS_IN_DAY" "0 < real_of_int MS_IN_HOUR"
  "0 < real_of_int MS_IN_MINUTE" "0 < real_of_int MS_IN_SECOND" "0 < DAYS_IN_YEAR"
  by (simp_all add: MS_IN_DAY_def MS_IN_HOUR_def MS_IN_MINUTE_def MS_IN_SECOND_def
      DAYS_IN_YEAR_def)

lemma handleSubmit_countdown_past:
  assumes "deathDate \<le> today"
  shows "allZero (handleSubmit_countdown deathDate today)"
proof -
  from assms have neg: "deathDate - today \<le> 0" by simp
  have d: "\<lfloor>real_of_int (deathDate - today) / real_of_int MS_IN_DAY\<rfloor> \<le> 0"
    using neg MS_positive(1) by (rule floor_quotient_nonpos)
  have h: "\<lfloor>real_of_int (js_rem (deathDate - today) MS_IN_DAY) / real_of_int MS_IN_HOUR\<rfloor> \<le> 0"
    using js_rem_nonpos [OF neg] MS_positive(2) by (rule floor_quotient_nonpos)
  have m: "\<lfloor>real_of_int (js_rem (deathDate - today) MS_IN_HOUR) / real_of_int MS_IN_MINUTE\<rfloor> \<le> 0"
    using js_rem_nonpos [OF neg] MS_positive(3) by (rule floor_quotient_nonpos)
  have s: "\<lfloor>real_of_int (js_rem (deathDate - today) MS_IN_MINUTE) / real_of_int MS_IN_SECOND\<rfloor> \<le> 0"
    using js_rem_nonpos [OF neg] MS_positive(4) by (rule floor_quotient_nonpos)
  have y: "\<lfloor>real_of_int \<lfloor>real_of_int (deathDate - today) / real_of_int MS_IN_DAY\<rfloor>
             / DAYS_IN_YEAR\<rfloor> \<le> 0"
    using d MS_positive(5) by (rule floor_quotient_nonpos)
  from d h m s y show ?thesis
    unfolding handleSubmit_countdown_def allZero_def Let_def
    by (simp only: CountdownTime.select_convs clamp_nonpos)
qed

lemma clockStep_noneNegative:
  "noneNegative (currentTime s) \<Longrightarrow> noneNegative (currentTime (clockStep s e))"
proof (cases e)
  case (Submitted d t)
  then show ?thesis by (simp add: handleSubmit_countdown_noneNegative)
next
  case (Ticked now)
  assume "noneNegative (currentTime s)"
  with Ticked show ?thesis
    by (simp add: updateCountdown_noneNegative split: option.split)
next
  case Retaken
  then show ?thesis by (simp add: INITIAL_CLOCK_def INITIAL_COUNTDOWN_TIME_def noneNegative_def)
qed

lemma clockRun_noneNegative:
  "noneNegative (currentTime s) \<Longrightarrow> noneNegative (currentTime (clockRun s events))"
  unfolding clockRun_def
  by (induction events arbitrary: s) (simp_all add: clockStep_noneNegative)

lemma ticks_stay_zero:
  assumes "isSubmitted s" and "targetDeathDate s = Some target" and "allZero (currentTime s)"
    and "\<forall>t \<in> set nows. target \<le> t"
  shows "allZero (currentTime (clockRun s (map Ticked nows)))"
  using assms unfolding clockRun_def
proof (induction nows arbitrary: s)
  case Nil
  then show ?case by simp
next
  case (Cons t nows)
  let ?s' = "clockStep s (Ticked t)"
  from Cons.prems have "isSubmitted ?s'" "targetDeathDate ?s' = Some target"
    "allZero (currentTime ?s')" "\<forall>t \<in> set nows. target \<le> t"
    by (simp_all add: updateCountdown_past)
  then have "allZero (currentTime (foldl clockStep ?s' (map Ticked nows)))"
    by (rule Cons.IH)
  then show ?case by simp
qed

lemma first_tick_past_target:
  assumes "isSubmitted s" and "targetDeathDate s = Some target" and "target \<le> now"
    and "\<forall>t \<in> set later. target \<le> t"
  shows "allZero (currentTime (clockRun s (map Ticked (now # later))))"
proof -
  let ?s' = "clockStep s (Ticked now)"
  from assms have "isSubmitted ?s'" "targetDeathDate ?s' = Some target"
    "allZero (currentTime ?s')"
    by (simp_all add: updateCountdown_past)
  from ticks_stay_zero [OF this assms(4)] show ?thesis by (simp add: clockRun_def)
qed

text \<open>
  C4. Countdown clamp. For a fixed target, a tick whose \<open>now\<close> is at or past the target
  sets all five components of the remaining duration to 0, and they are 0 after every
  later tick as long as \<open>now\<close> does not move backwards. No component is negative after a
  tick, nor in any state the clock reaches from its initial state through submissions,
  ticks and retakes.
\<close>

theorem countdown_clamp:
  "(target \<le> now \<longrightarrow> allZero (updateCountdown target now))
   \<and> (isSubmitted s \<and> targetDeathDate s = Some target \<and> target \<le> now \<and> sorted (now # later)
        \<longrightarrow> (\<forall>k \<le> length later.
               allZero (currentTime (clockRun s (map Ticked (take (Suc k) (now # later)))))))
   \<and> noneNegative (updateCountdown target now)
   \<and> noneNegative (currentTime (clockRun INITIAL_CLOCK events))"
proof (intro conjI impI allI)
  assume "target \<le> now"
  then show "allZero (updateCountdown target now)" by (rule updateCountdown_past)
next
  fix k
  assume h: "isSubmitted s \<and> targetDeathDate s = Some target \<and> target \<le> now
      \<and> sorted (now # later)" and "k \<le> length later"
  then have "\<forall>t \<in> set later. target \<le> t" by auto
  then have "\<forall>t \<in> set (take k later). target \<le> t" by (auto dest: in_set_takeD)
  with h have "allZero (currentTime (clockRun s (map Ticked (now # take k later))))"
    by (intro first_tick_past_target) simp_all
  then show "allZero (currentTime (clockRun s (map Ticked (take (Suc k) (now # later)))))"
    by simp
next
  show "noneNegative (updateCountdown target now)" by (rule updateCountdown_noneNegative)
next
  have "noneNegative (currentTime INITIAL_CLOCK)"
    by (simp add: INITIAL_CLOCK_def INITIAL_COUNTDOWN_TIME_def noneNegative_def)
  then show "noneNegative (currentTime (clockRun INITIAL_CLOCK events))"
    by (rule clockRun_noneNegative)
qed

lemma submitted_clock_facts:
  "isSubmitted submitted_clock" "targetDeathDate submitted_clock = Some 1000"
  by (simp_all add: submitted_clock_def clockRun_def)

lemma one_of_each:
  "currentTime (clockRun INITIAL_CLOCK [Submitted 90061001 0, Ticked 0])
     = \<lparr>daysRemaining = 1, hoursRemaining = 1, minutesRemaining = 1, secondsRemaining = 1,
        approximateYears = 0\<rparr>"
  by (simp add: clockRun_def updateCountdown_def js_rem_def Let_def)

theorem countdown_clamp_witness:
  "(1000::int) \<le> 1000 \<and> allZero (updateCountdown 1000 1000)
   \<and> isSubmitted submitted_clock \<and> targetDeathDate submitted_clock = Some 1000
   \<and> sorted [1000, 2000, 3000 :: int]
   \<and> allZero (currentTime (clockRun submitted_clock [Ticked 1000, Ticked 2000, Ticked 3000]))
   \<and> currentTime (clockRun INITIAL_CLOCK [Submitted 90061001 0, Ticked 0])
       = \<lparr>daysRemaining = 1, hoursRemaining = 1, minutesRemaining = 1, secondsRemaining = 1,
          approximateYears = 0\<rparr>
   \<and> noneNegative (currentTime (clockRun INITIAL_CLOCK [Submitted 90061001 0, Ticked 0]))"
proof -
  note t = countdown_clamp [of 1000 1000 submitted_clock "[2000, 3000]"
      "[Submitted 90061001 0, Ticked 0]"]
  have a: "(1000::int) \<le> 1000" by simp
  from t a have b: "allZero (updateCountdown 1000 1000)" by blast
  have c: "sorted [1000, 2000, 3000 :: int]" by simp
  from t a c submitted_clock_facts
  have "\<forall>k \<le> length [2000, 3000 :: int]. allZero (currentTime (clockRun submitted_clock
          (map Ticked (take (Suc k) (1000 # [2000, 3000])))))"
    by blast
  then have "2 \<le> length [2000, 3000 :: int] \<longrightarrow> allZero (currentTime (clockRun
          submitted_clock (map Ticked (take (Suc 2) (1000 # [2000, 3000])))))"
    by (rule spec)
  then have d: "allZero (currentTime (clockRun submitted_clock
          [Ticked 1000, Ticked 2000, Ticked 3000]))"
    by simp
  from t have e: "noneNegative (currentTime (clockRun INITIAL_CLOCK
          [Submitted 90061001 0, Ticked 0]))"
    by blast
  from a b submitted_clock_facts c d one_of_each e show ?thesis by blast
qed

subsection \<open>The round trip\<close>

lemma handleSubmit_deathDate_steps:
  "handleSubmit_deathDate birthDate totalLifeExpectancy =
     setDate
       (setMonth
          (setFullYear birthDate (js_add (getFullYear birthDate) (Math_floor totalLifeExpectancy)))
          (js_add (getMonth birthDate)
             (Math_floor (js_mul (js_sub totalLifeExpectancy (Math_floor totalLifeExpectancy))
                (Fin 12)))))
       (js_add (getDate birthDate)
          (Math_floor (js_mul
             (js_sub (js_mul (js_sub totalLifeExpectancy (Math_floor totalLifeExpectancy))
                        (Fin 12))
                (Math_floor (js_mul
                   (js_sub totalLifeExpectancy (Math_floor totalLifeExpectancy)) (Fin 12))))
             (fl 30.44))))"
  by (simp add: handleSubmit_deathDate_def Let_def)

lemma setFullYear_not_finite:
  "year = NaN \<or> year = PosInf \<or> year = NegInf \<Longrightarrow> setFullYear date year = None"
  by (auto simp add: setFullYear_def MakeDay_def MakeDate_def TimeClip_def finiteInteger_def
      Let_def)

lemma handleSubmit_deathDate_NaN: "handleSubmit_deathDate birthDate NaN = None"
proof -
  have "js_add (getFullYear birthDate) (Math_floor NaN) = NaN"
    by (cases "getFullYear birthDate") simp_all
  then show ?thesis
    by (simp add: handleSubmit_deathDate_steps setFullYear_not_finite setMonth_def setDate_def)
qed

lemma scenario_getters:
  "getFullYear scenario_birthDate = Fin 2000" "getMonth scenario_birthDate = Fin 0"
  "getDate scenario_birthDate = Fin 1"
  by code_simp+

lemma fl_79_2: "fl 79.2 = Fin (5573204538870989 / 70368744177664)"
  by (simp add: fl_defs)

lemma scenario_totalYears: "Math_floor (fl 79.2) = Fin 79"
  unfolding fl_79_2 by simp

lemma scenario_remainingMonths:
  "Math_floor (js_mul (js_sub (fl 79.2) (Fin 79)) (Fin 12)) = Fin 2"
  unfolding fl_79_2 by (simp add: js_sub_def fl_defs)

lemma scenario_months_fraction:
  "js_sub (js_mul (js_sub (fl 79.2) (Fin 79)) (Fin 12)) (Fin 2)
     = Fin (7036874417767 / 17592186044416)"
  unfolding fl_79_2 by (simp add: js_sub_def fl_defs)

lemma scenario_remainingDays:
  "Math_floor (js_mul (Fin (7036874417767 / 17592186044416)) (fl 30.44)) = Fin 12"
  by (simp add: fl_defs)

lemma scenario_sums:
  "js_add (Fin 2000) (Fin 79) = Fin 2079" "js_add (Fin 0) (Fin 2) = Fin 2"
  "js_add (Fin 1) (Fin 12) = Fin 13" "js_add (Fin 2000) (Fin 300000) = Fin 302000"
  by (simp_all add: fl_defs)

lemma scenario_setFullYear:
  "setFullYear scenario_birthDate (Fin 2079) = Some 3439756800000"
  by code_simp

lemma scenario_setMonth: "setMonth (Some 3439756800000) (Fin 2) = Some 3444854400000"
  by code_simp

lemma scenario_setDate: "setDate (Some 3444854400000) (Fin 13) = Some 3445891200000"
  by code_simp

lemma scenario_deathDate: "handleSubmit_deathDate scenario_birthDate (fl 79.2) = Some 3445891200000"
  by (simp only: handleSubmit_deathDate_steps scenario_getters scenario_totalYears
      scenario_remainingMonths scenario_months_fraction scenario_remainingDays scenario_sums
      scenario_setFullYear scenario_setMonth scenario_setDate)

lemma scenario_deathDate_civil: "civilFromDays (Day 3445891200000) = (2079, 3, 13)"
  by code_simp

lemma fl_30_44: "fl 30.44 = Fin (8568098291072369 / 281474976710656)"
  by (simp add: fl_defs)

lemma out_of_range_setFullYear: "setFullYear scenario_birthDate (Fin 302000) = None"
  by code_simp

lemma out_of_range_deathDate: "handleSubmit_deathDate scenario_birthDate (Fin 300000) = None"
proof -
  have "setFullYear scenario_birthDate
      (js_add (getFullYear scenario_birthDate) (Math_floor (Fin 300000))) = None"
    by (simp only: scenario_getters scenario_sums out_of_range_setFullYear Math_floor.simps
        floor_numeral of_int_numeral)
  then show ?thesis
    by (simp only: handleSubmit_deathDate_steps setMonth_def setDate_def option.case)
qed

lemma round_trip_valid:
  "remainingAllZero (handleSubmit_countdown_Date (Some deathDate) (Some deathDate))"
  "remainingAllZero (updateCountdown_Date (Some deathDate) (Some deathDate))"
  by (simp_all add: remainingAllZero_def handleSubmit_countdown_Date_def
      updateCountdown_Date_def handleSubmit_countdown_past updateCountdown_past)

text \<open>
  C8 as stated covers every expected lifespan. A lifespan of 300000 years puts the death
  date beyond the range of \<open>Date\<close>: it is an Invalid Date, its time value is \<open>NaN\<close>, and
  every component of the remaining duration is \<open>NaN\<close>, not 0. A lifespan of \<open>NaN\<close>, the
  estimate after a prediction of \<open>NaN\<close>, does the same.
\<close>

theorem death_date_out_of_range_counterexample:
  "handleSubmit_deathDate scenario_birthDate (Fin 300000) = None
   \<and> handleSubmit_countdown_Date (handleSubmit_deathDate scenario_birthDate (Fin 300000))
        (handleSubmit_deathDate scenario_birthDate (Fin 300000)) = AllNaN
   \<and> updateCountdown_Date (handleSubmit_deathDate scenario_birthDate (Fin 300000))
        (handleSubmit_deathDate scenario_birthDate (Fin 300000)) = AllNaN
   \<and> \<not> remainingAllZero (handleSubmit_countdown_Date
          (handleSubmit_deathDate scenario_birthDate (Fin 300000))
          (handleSubmit_deathDate scenario_birthDate (Fin 300000)))
   \<and> \<not> remainingAllZero (updateCountdown_Date
          (handleSubmit_deathDate scenario_birthDate (Fin 300000))
          (handleSubmit_deathDate scenario_birthDate (Fin 300000)))
   \<and> handleSubmit_deathDate scenario_birthDate NaN = None"
  by (simp add: out_of_range_deathDate handleSubmit_deathDate_NaN
      handleSubmit_countdown_Date_def updateCountdown_Date_def remainingAllZero_def)

text \<open>
  C8, amended. Round trip. For every birth date and expected lifespan whose death date, as
  computed by \<open>handleSubmit\<close>, is a valid date, that date fed back as \<open>now\<close> gives a
  remaining duration whose components are all zero, both in the decomposition of
  \<open>handleSubmit\<close> and in a countdown tick.
\<close>

theorem death_date_round_trip:
  assumes "handleSubmit_deathDate birthDate totalLifeExpectancy = Some deathDate"
  shows "remainingAllZero (handleSubmit_countdown_Date
            (handleSubmit_deathDate birthDate totalLifeExpectancy)
            (handleSubmit_deathDate birthDate totalLifeExpectancy))
       \<and> remainingAllZero (updateCountdown_Date
            (handleSubmit_deathDate birthDate totalLifeExpectancy)
            (handleSubmit_deathDate birthDate totalLifeExpectancy))"
  unfolding assms by (simp add: round_trip_valid)

theorem death_date_round_trip_witness:
  "handleSubmit_deathDate scenario_birthDate (fl 79.2) = Some 3445891200000
   \<and> remainingAllZero (handleSubmit_countdown_Date (Some 3445891200000) (Some 3445891200000))
   \<and> remainingAllZero (updateCountdown_Date (Some 3445891200000) (Some 3445891200000))"
  using death_date_round_trip [OF scenario_deathDate] unfolding scenario_deathDate
  by (simp add: scenario_deathDate)

subsection \<open>The ordinal suffix\<close>

text \<open>
  C9. For every day number from 1 to 31 the ordinal suffix is "th" when the day lies
  strictly between 3 and 21, and otherwise follows the last decimal digit: 1 gives "st",
  2 gives "nd", 3 gives "rd", anything else "th". In particular 1, 21 and 31 give "st",
  2 and 22 give "nd", 3 and 23 give "rd", and every day from 4 to 20 (11, 12 and 13
  among them) gives "th".
\<close>

theorem getOrdinalSuffix_table:
  "(\<forall>day \<in> {1..31}.
      getOrdinalSuffix day =
        (if 3 < day \<and> day < 21 then ''th''
         else if day mod 10 = 1 then ''st''
         else if day mod 10 = 2 then ''nd''
         else if day mod 10 = 3 then ''rd''
         else ''th''))
   \<and> getOrdinalSuffix 1 = ''st'' \<and> getOrdinalSuffix 2 = ''nd'' \<and> getOrdinalSuffix 3 = ''rd''
   \<and> (\<forall>day \<in> {4..20}. getOrdinalSuffix day = ''th'')
   \<and> getOrdinalSuffix 21 = ''st'' \<and> getOrdinalSuffix 22 = ''nd''
   \<and> getOrdinalSuffix 23 = ''rd'' \<and> getOrdinalSuffix 31 = ''st''"
proof -
  have general: "getOrdinalSuffix day =
        (if 3 < day \<and> day < 21 then ''th''
         else if day mod 10 = 1 then ''st''
         else if day mod 10 = 2 then ''nd''
         else if day mod 10 = 3 then ''rd''
         else ''th'')" if "day \<in> {1..31}" for day
  proof -
    from that have "0 \<le> day" by simp
    then have "js_rem day 10 = day mod 10" by (simp add: js_rem_nonneg)
    then show ?thesis by (simp add: getOrdinalSuffix_def)
  qed
  have teens: "getOrdinalSuffix day = ''th''" if "day \<in> {4..20}" for day
    using that by (simp add: getOrdinalSuffix_def)
  have points: "getOrdinalSuffix 1 = ''st''" "getOrdinalSuffix 2 = ''nd''"
    "getOrdinalSuffix 3 = ''rd''" "getOrdinalSuffix 21 = ''st''"
    "getOrdinalSuffix 22 = ''nd''" "getOrdinalSuffix 23 = ''rd''"
    "getOrdinalSuffix 31 = ''st''"
    by (simp_all add: getOrdinalSuffix_def js_rem_def)
  from general teens points show ?thesis by blast
qed

theorem getOrdinalSuffix_table_witness:
  "(11::int) \<in> {1..31} \<and> (12::int) \<in> {4..20} \<and> getOrdinalSuffix 11 = ''th''
   \<and> getOrdinalSuffix 12 = ''th'' \<and> getOrdinalSuffix 31 = ''st''"
proof -
  have a: "(11::int) \<in> {1..31}" and b: "(12::int) \<in> {4..20}" by simp_all
  from getOrdinalSuffix_table have "getOrdinalSuffix 11 =
        (if 3 < (11::int) \<and> (11::int) < 21 then ''th''
         else if (11::int) mod 10 = 1 then ''st''
         else if (11::int) mod 10 = 2 then ''nd''
         else if (11::int) mod 10 = 3 then ''rd''
         else ''th'')"
    using a by blast
  then have c: "getOrdinalSuffix 11 = ''th''" by simp
  from getOrdinalSuffix_table have d: "getOrdinalSuffix 12 = ''th''" using b by blast
  from getOrdinalSuffix_table have e: "getOrdinalSuffix 31 = ''st''" by blast
  from a b c d e show ?thesis by blast
qed

end
